theory Spec2Isabelle
  imports Main "HOL-Library.Word" "HOL-Library.Signed_Division"
begin

unbundle bit_operations_syntax

section \<open>Machine types\<close>

text \<open>
  The firmware is C for a 32-bit Cortex-M4.  \<open>uint8_t\<close>, \<open>uint16_t\<close> and \<open>uint32_t\<close> are
  words of that width, whose arithmetic wraps around.  An \<open>int32_t\<close> is kept as the 32-bit
  word of its two's complement representation and read with \<open>sint\<close> wherever the source
  compares or divides it as a signed number.
\<close>

type_synonym u8 = "8 word"
type_synonym u16 = "16 word"
type_synonym u32 = "32 word"
type_synonym i32 = "32 word"

text \<open>
  A run of the C program that divides by zero has no defined result; the model returns
  this value instead of a result.
\<close>

datatype fault = DivideByZero

section \<open>A/V synchronizer (av\_sync.h, av\_sync.c)\<close>

datatype AVSync_State =
  AVSYNC_STATE_RESET | AVSYNC_STATE_READY | AVSYNC_STATE_RUNNING | AVSYNC_STATE_STOPPED

datatype AVSync_Decision =
  AVSYNC_NOT_STARTED | AVSYNC_RENDER_FRAME | AVSYNC_SKIP_FRAME | AVSYNC_REPEAT_FRAME

record AVSync_Stats =
  frames_skipped :: u32
  frames_repeated :: u32
  max_drift :: i32
  min_drift :: i32

text \<open>
  The fields \<open>state\<close>, \<open>stats\<close> and \<open>initialized\<close> occur in several structs of the
  program; here they carry the prefix \<open>sync_\<close>.
\<close>

record AVSync_Handle =
  audio_sample_rate :: u32
  video_fps :: u32
  samples_per_frame :: u32
  max_drift_frames :: u32
  sync_state :: AVSync_State
  audio_samples_played :: u32
  video_frames_rendered :: u32
  sync_stats :: AVSync_Stats
  sync_initialized :: bool

definition AVSYNC_DEFAULT_MAX_DRIFT :: u32 where
  "AVSYNC_DEFAULT_MAX_DRIFT = 2"

definition AVSync_Stats_zero :: AVSync_Stats where
  "AVSync_Stats_zero =
     \<lparr>frames_skipped = 0, frames_repeated = 0, max_drift = 0, min_drift = 0\<rparr>"

text \<open>The handle after \<open>memset(sync, 0, sizeof(AVSync_Handle))\<close>.\<close>

definition AVSync_Handle_zero :: AVSync_Handle where
  "AVSync_Handle_zero =
     \<lparr>audio_sample_rate = 0, video_fps = 0, samples_per_frame = 0, max_drift_frames = 0,
      sync_state = AVSYNC_STATE_RESET, audio_samples_played = 0, video_frames_rendered = 0,
      sync_stats = AVSync_Stats_zero, sync_initialized = False\<rparr>"

text \<open>
  All functions of the module take a pointer to the handle and return at once when it is
  \<open>NULL\<close>; the model is about the calls with a handle, which it takes and returns by value.
\<close>

definition AVSync_Init :: "AVSync_Handle \<Rightarrow> u32 \<Rightarrow> u32 \<Rightarrow> u32 \<Rightarrow> AVSync_Handle" where
  "AVSync_Init sync sample_rate fps max_drift_arg =
     (if sample_rate = 0 \<or> fps = 0 then sync
      else AVSync_Handle_zero
        \<lparr>audio_sample_rate := sample_rate,
         video_fps := fps,
         samples_per_frame := sample_rate div fps,
         max_drift_frames := (if 0 < max_drift_arg then max_drift_arg else AVSYNC_DEFAULT_MAX_DRIFT),
         sync_state := AVSYNC_STATE_READY,
         sync_initialized := True\<rparr>)"

definition AVSync_Start :: "AVSync_Handle \<Rightarrow> AVSync_Handle" where
  "AVSync_Start sync =
     (if \<not> sync_initialized sync then sync
      else sync\<lparr>audio_samples_played := 0,
                video_frames_rendered := 0,
                sync_stats := AVSync_Stats_zero,
                sync_state := AVSYNC_STATE_RUNNING\<rparr>)"

definition AVSync_Stop :: "AVSync_Handle \<Rightarrow> AVSync_Handle" where
  "AVSync_Stop sync = sync\<lparr>sync_state := AVSYNC_STATE_STOPPED\<rparr>"

definition AVSync_AudioTick :: "AVSync_Handle \<Rightarrow> u32 \<Rightarrow> AVSync_Handle" where
  "AVSync_AudioTick sync samples =
     (if sync_state sync \<noteq> AVSYNC_STATE_RUNNING then sync
      else sync\<lparr>audio_samples_played := audio_samples_played sync + samples\<rparr>)"

text \<open>
  \<open>AVSync_GetFrameDecision\<close> updates the drift statistics and returns the decision.  The
  division by \<open>samples_per_frame\<close> is unsigned; the two casts to \<open>int32_t\<close> keep the bits,
  and the subtraction and the negation of \<open>max_drift_frames\<close> are those of 32-bit two's
  complement.  All comparisons of \<open>drift\<close> are signed.
\<close>

definition AVSync_GetFrameDecision ::
  "AVSync_Handle \<Rightarrow> fault + (AVSync_Decision \<times> AVSync_Handle)" where
  "AVSync_GetFrameDecision sync =
     (if sync_state sync \<noteq> AVSYNC_STATE_RUNNING then Inr (AVSYNC_NOT_STARTED, sync)
      else if samples_per_frame sync = 0 then Inl DivideByZero
      else
        let audio_frame = audio_samples_played sync div samples_per_frame sync;
            video_frame = video_frames_rendered sync;
            drift = video_frame - audio_frame;
            st0 = sync_stats sync;
            st1 = (if sint (max_drift st0) < sint drift then st0\<lparr>max_drift := drift\<rparr> else st0);
            st2 = (if sint drift < sint (min_drift st1) then st1\<lparr>min_drift := drift\<rparr> else st1);
            sync' = sync\<lparr>sync_stats := st2\<rparr>
        in if sint drift < sint (- max_drift_frames sync) then Inr (AVSYNC_SKIP_FRAME, sync')
           else if sint (max_drift_frames sync) < sint drift then Inr (AVSYNC_REPEAT_FRAME, sync')
           else Inr (AVSYNC_RENDER_FRAME, sync'))"

definition AVSync_FrameRendered :: "AVSync_Handle \<Rightarrow> AVSync_Handle" where
  "AVSync_FrameRendered sync = sync\<lparr>video_frames_rendered := video_frames_rendered sync + 1\<rparr>"

definition AVSync_FrameSkipped :: "AVSync_Handle \<Rightarrow> AVSync_Handle" where
  "AVSync_FrameSkipped sync =
     sync\<lparr>video_frames_rendered := video_frames_rendered sync + 1,
          sync_stats := (sync_stats sync)\<lparr>frames_skipped := frames_skipped (sync_stats sync) + 1\<rparr>\<rparr>"

text \<open>
  The operations a caller can apply to a running synchronizer, and a run of them in
  order.  A run stops at the first fault.
\<close>

datatype AVSync_Op =
  Op_AudioTick u32 | Op_GetFrameDecision | Op_FrameRendered | Op_FrameSkipped
  | Op_Start | Op_Stop

fun AVSync_apply :: "AVSync_Op \<Rightarrow> AVSync_Handle \<Rightarrow> fault + AVSync_Handle" where
  "AVSync_apply (Op_AudioTick n) sync = Inr (AVSync_AudioTick sync n)"
| "AVSync_apply Op_GetFrameDecision sync =
     (case AVSync_GetFrameDecision sync of Inl e \<Rightarrow> Inl e | Inr (d, sync') \<Rightarrow> Inr sync')"
| "AVSync_apply Op_FrameRendered sync = Inr (AVSync_FrameRendered sync)"
| "AVSync_apply Op_FrameSkipped sync = Inr (AVSync_FrameSkipped sync)"
| "AVSync_apply Op_Start sync = Inr (AVSync_Start sync)"
| "AVSync_apply Op_Stop sync = Inr (AVSync_Stop sync)"

fun AVSync_run :: "AVSync_Op list \<Rightarrow> AVSync_Handle \<Rightarrow> fault + AVSync_Handle" where
  "AVSync_run [] sync = Inr sync"
| "AVSync_run (op # ops) sync =
     (case AVSync_apply op sync of Inl e \<Rightarrow> Inl e | Inr sync' \<Rightarrow> AVSync_run ops sync')"

text \<open>The samples that the ticks of a run add when none of them is dropped.\<close>

fun ticked :: "AVSync_Op list \<Rightarrow> nat" where
  "ticked [] = 0"
| "ticked (Op_AudioTick n # ops) = unat n + ticked ops"
| "ticked (_ # ops) = ticked ops"

section \<open>Display triple buffer (buffers.h, buffers.c)\<close>

record TripleBuffer_State =
  render :: u8
  ready :: u8
  transfer :: u8
  transfer_busy :: bool
  frames_rendered :: u32
  frames_transferred :: u32

text \<open>The static initializer of \<open>g_display_buffers\<close>, which \<open>Buffers_Init\<close> restores.\<close>

definition g_display_buffers :: TripleBuffer_State where
  "g_display_buffers =
     \<lparr>render = 0, ready = 2, transfer = 1, transfer_busy = False,
      frames_rendered = 0, frames_transferred = 0\<rparr>"

definition Buffers_Init :: "TripleBuffer_State \<Rightarrow> TripleBuffer_State" where
  "Buffers_Init s = g_display_buffers"

definition Display_SwapBuffers :: "TripleBuffer_State \<Rightarrow> TripleBuffer_State" where
  "Display_SwapBuffers s =
     (let old_ready = ready s
      in s\<lparr>ready := render s, render := old_ready, frames_rendered := frames_rendered s + 1\<rparr>)"

definition Display_HasFrame :: "TripleBuffer_State \<Rightarrow> bool" where
  "Display_HasFrame s = (frames_transferred s < frames_rendered s)"

text \<open>\<open>Display_StartTransfer\<close> returns its boolean result with the new state.\<close>

definition Display_StartTransfer :: "TripleBuffer_State \<Rightarrow> bool \<times> TripleBuffer_State" where
  "Display_StartTransfer s =
     (if transfer_busy s then (False, s)
      else if \<not> Display_HasFrame s then (False, s)
      else
        let old_transfer = transfer s
        in (True, s\<lparr>transfer := ready s, ready := old_transfer, transfer_busy := True\<rparr>))"

definition Display_TransferComplete :: "TripleBuffer_State \<Rightarrow> TripleBuffer_State" where
  "Display_TransferComplete s =
     s\<lparr>transfer_busy := False, frames_transferred := frames_transferred s + 1\<rparr>"

datatype Display_Op = Op_SwapBuffers | Op_StartTransfer | Op_TransferComplete

fun Display_apply :: "Display_Op \<Rightarrow> TripleBuffer_State \<Rightarrow> TripleBuffer_State" where
  "Display_apply Op_SwapBuffers s = Display_SwapBuffers s"
| "Display_apply Op_StartTransfer s = snd (Display_StartTransfer s)"
| "Display_apply Op_TransferComplete s = Display_TransferComplete s"

fun Display_run :: "Display_Op list \<Rightarrow> TripleBuffer_State \<Rightarrow> TripleBuffer_State" where
  "Display_run [] s = s"
| "Display_run (op # ops) s = Display_run ops (Display_apply op s)"

section \<open>Audio pipeline (audio\_dac.h, audio\_dac.c)\<close>

datatype Audio_State =
  AUDIO_STATE_RESET | AUDIO_STATE_READY | AUDIO_STATE_PLAYING | AUDIO_STATE_ERROR

datatype Audio_BufferHalf = AUDIO_BUFFER_FIRST_HALF | AUDIO_BUFFER_SECOND_HALF

record Audio_Stats =
  samples_played :: u32
  refill_count :: u32
  underrun_count :: u32

text \<open>
  The HAL handles \<open>hdac\<close> and \<open>htim\<close> are left out.  The pointer \<open>avsync\<close> is either
  \<open>NULL\<close> or the address of the one synchronizer of the program, which the interrupt handler
  below takes and returns beside the audio handle; the field records which.
\<close>

record Audio_Handle =
  avsync :: bool
  needs_refill :: bool
  fill_half :: Audio_BufferHalf
  audio_state :: Audio_State
  audio_stats :: Audio_Stats
  audio_initialized :: bool

definition AUDIO_BUFFER_SAMPLES :: u32 where
  "AUDIO_BUFFER_SAMPLES = 2048"

definition AUDIO_HALF_BUFFER_SAMPLES :: u32 where
  "AUDIO_HALF_BUFFER_SAMPLES = AUDIO_BUFFER_SAMPLES"

definition audio_HandleDMA ::
  "Audio_Handle \<Rightarrow> AVSync_Handle \<Rightarrow> bool \<Rightarrow> Audio_Handle \<times> AVSync_Handle" where
  "audio_HandleDMA audio sync is_half_transfer =
     (if \<not> audio_initialized audio then (audio, sync)
      else
        let audio1 = audio\<lparr>fill_half :=
                        (if is_half_transfer then AUDIO_BUFFER_FIRST_HALF
                         else AUDIO_BUFFER_SECOND_HALF),
                      needs_refill := True\<rparr>;
            sync' = (if avsync audio1 then AVSync_AudioTick sync AUDIO_HALF_BUFFER_SAMPLES
                     else sync);
            audio2 = audio1\<lparr>audio_stats := (audio_stats audio1)
                       \<lparr>samples_played :=
                          samples_played (audio_stats audio1) + AUDIO_HALF_BUFFER_SAMPLES\<rparr>\<rparr>
        in (audio2, sync'))"

definition audio_BufferFilled :: "Audio_Handle \<Rightarrow> Audio_Handle" where
  "audio_BufferFilled audio =
     audio\<lparr>needs_refill := False,
           audio_stats := (audio_stats audio)
             \<lparr>refill_count := refill_count (audio_stats audio) + 1\<rparr>\<rparr>"


section \<open>SD card block reads (sd\_card.h, sd\_card.c)\<close>

text \<open>
  A byte array, and any other C array, is a function from the index to the element: the
  memory seen from the array's base pointer.  \<open>blit dst pos src from n\<close> is
  \<open>memcpy(dst + pos, src + from, n)\<close>.
\<close>

type_synonym bytes = "nat \<Rightarrow> u8"

definition blit :: "(nat \<Rightarrow> 'a) \<Rightarrow> nat \<Rightarrow> (nat \<Rightarrow> 'a) \<Rightarrow> nat \<Rightarrow> nat \<Rightarrow> (nat \<Rightarrow> 'a)" where
  "blit dst pos src from n =
     (\<lambda>k. if pos \<le> k \<and> k < pos + n then src (from + (k - pos)) else dst k)"

datatype SD_Status = SD_OK | SD_ERROR | SD_ERROR_TIMEOUT | SD_ERROR_NO_CARD

text \<open>
  The driver reaches the card through the SPI bus and the vendor's HAL, which are not
  part of the repository.  The model keeps the card beside the handle's own fields.
  \<open>card_accepts\<close> says, for the argument of a read command, whether the card answers the
  command with the response \<open>0x00\<close>.  \<open>card_data\<close> gives what follows for the block at
  an address: the 512 data bytes when the block arrives; or the way the transfer fails
  in \<open>SD_WaitDataToken\<close> (no start token in time, or an error token) or in
  \<open>SD_ReadBlockData_DMA\<close> (the HAL refuses to start the DMA, the DMA does not finish in
  time, or it finishes with \<open>dma_error\<close> set).  A DMA that was started and then failed
  has stored the first \<open>m\<close> bytes of the block, which the last two cases carry.
  \<open>io_log\<close> is the list of read commands sent so far, \<open>CMD18\<close> with the number of blocks
  asked for.
\<close>

datatype SD_Data =
  Data bytes | Token_Missing | DMA_Not_Started | DMA_Timed_Out bytes nat | DMA_Faulted bytes nat

datatype SD_Command = CMD17 u32 | CMD18 u32 u32

record SD_Handle =
  high_capacity :: bool
  sd_initialized :: bool
  card_accepts :: "u32 \<Rightarrow> bool"
  card_data :: "u32 \<Rightarrow> SD_Data"
  io_log :: "SD_Command list"

definition SD_BLOCK_SIZE :: u32 where
  "SD_BLOCK_SIZE = 512"

text \<open>
  \<open>SD_WaitDataToken\<close> followed by \<open>SD_ReadBlockData_DMA(hsd, buffer + pos)\<close> for the block
  at \<open>addr\<close>, as both read functions call them: the status that the caller keeps, and
  the destination.
\<close>

definition SD_ReadBlockData :: "SD_Handle \<Rightarrow> u32 \<Rightarrow> bytes \<Rightarrow> nat \<Rightarrow> SD_Status \<times> bytes" where
  "SD_ReadBlockData hsd addr buffer pos =
     (case card_data hsd addr of
        Data d \<Rightarrow> (SD_OK, blit buffer pos d 0 512)
      | Token_Missing \<Rightarrow> (SD_ERROR_TIMEOUT, buffer)
      | DMA_Not_Started \<Rightarrow> (SD_ERROR, buffer)
      | DMA_Timed_Out d m \<Rightarrow> (SD_ERROR_TIMEOUT, blit buffer pos d 0 (min m 512))
      | DMA_Faulted d m \<Rightarrow> (SD_ERROR, blit buffer pos d 0 (min m 512)))"

text \<open>
  \<open>SD_ReadBlock(hsd, buffer + pos, block)\<close>: the status, the handle and the destination
  after the call.
\<close>

definition SD_ReadBlock :: "SD_Handle \<Rightarrow> bytes \<Rightarrow> nat \<Rightarrow> u32 \<Rightarrow> SD_Status \<times> SD_Handle \<times> bytes" where
  "SD_ReadBlock hsd buffer pos block =
     (if \<not> sd_initialized hsd then (SD_ERROR, hsd, buffer)
      else
        let addr = (if high_capacity hsd then block else block * SD_BLOCK_SIZE);
            hsd' = hsd\<lparr>io_log := io_log hsd @ [CMD17 addr]\<rparr>
        in if \<not> card_accepts hsd addr then (SD_ERROR, hsd', buffer)
           else
             let (status, buffer') = SD_ReadBlockData hsd addr buffer pos
             in (status, hsd', buffer'))"

text \<open>
  The loop of \<open>SD_ReadMultipleBlocks\<close> over the \<open>n\<close> blocks that remain, block \<open>i\<close>
  next: after \<open>CMD18\<close> the card streams the blocks that follow the start address, one
  address unit apart on a block-addressed card and 512 apart on a byte-addressed one.
  The loop stops at the first block that fails, with the status of that block.
\<close>

fun SD_ReadMultipleBlocks_loop ::
  "SD_Handle \<Rightarrow> u32 \<Rightarrow> bytes \<Rightarrow> nat \<Rightarrow> nat \<Rightarrow> nat \<Rightarrow> SD_Status \<times> bytes" where
  "SD_ReadMultipleBlocks_loop hsd addr buffer pos i 0 = (SD_OK, buffer)"
| "SD_ReadMultipleBlocks_loop hsd addr buffer pos i (Suc n) =
     (case SD_ReadBlockData hsd
             (addr + of_nat i * (if high_capacity hsd then 1 else SD_BLOCK_SIZE))
             buffer (pos + i * 512) of
        (status, buffer') \<Rightarrow>
          if status \<noteq> SD_OK then (status, buffer')
          else SD_ReadMultipleBlocks_loop hsd addr buffer' pos (Suc i) n)"

definition SD_ReadMultipleBlocks ::
  "SD_Handle \<Rightarrow> bytes \<Rightarrow> nat \<Rightarrow> u32 \<Rightarrow> u32 \<Rightarrow> SD_Status \<times> SD_Handle \<times> bytes" where
  "SD_ReadMultipleBlocks hsd buffer pos start_block count =
     (if \<not> sd_initialized hsd \<or> count = 0 then (SD_ERROR, hsd, buffer)
      else if count = 1 then SD_ReadBlock hsd buffer pos start_block
      else
        let addr = (if high_capacity hsd then start_block else start_block * SD_BLOCK_SIZE);
            hsd' = hsd\<lparr>io_log := io_log hsd @ [CMD18 addr count]\<rparr>
        in if \<not> card_accepts hsd addr then (SD_ERROR, hsd', buffer)
           else
             let (status, buffer') = SD_ReadMultipleBlocks_loop hsd addr buffer pos 0 (unat count)
             in (status, hsd', buffer'))"

section \<open>FAT32 reader (fatfs.h, fatfs.c)\<close>

datatype FAT_Status =
  FAT_OK | FAT_ERROR | FAT_ERROR_READ | FAT_ERROR_NOT_FOUND | FAT_ERROR_INVALID_PARAM

record FAT_BootSector =
  bytes_per_sector :: u16
  sectors_per_cluster :: u8
  reserved_sectors :: u16
  num_fats :: u8
  sectors_per_fat :: u32
  root_cluster :: u32
  total_sectors :: u32
  partition_lba :: u32
  fat_start_sector :: u32
  data_start_sector :: u32

text \<open>The volume holds its SD handle by value: the program has one card and one volume.\<close>

record FAT_Volume =
  hsd :: SD_Handle
  boot :: FAT_BootSector
  sector_buffer :: bytes
  mounted :: bool

record FAT_FileInfo =
  fi_first_cluster :: u32
  fi_size :: u32
  fi_attributes :: u8

definition FAT_SECTOR_SIZE :: u32 where
  "FAT_SECTOR_SIZE = SD_BLOCK_SIZE"

definition FAT_MAX_FILENAME :: nat where
  "FAT_MAX_FILENAME = 11"

definition FAT_CLUSTER_END :: u32 where
  "FAT_CLUSTER_END = 0x0FFFFFF8"

definition FAT_Read32 :: "bytes \<Rightarrow> nat \<Rightarrow> u32" where
  "FAT_Read32 buf offset =
     ucast (buf offset) OR push_bit 8 (ucast (buf (offset + 1)))
       OR push_bit 16 (ucast (buf (offset + 2))) OR push_bit 24 (ucast (buf (offset + 3)))"

definition FAT_IsEndOfChain :: "u32 \<Rightarrow> bool" where
  "FAT_IsEndOfChain cluster \<longleftrightarrow> cluster < 2 \<or> FAT_CLUSTER_END \<le> cluster"

definition FAT_GetClusterSize :: "FAT_Volume \<Rightarrow> u32" where
  "FAT_GetClusterSize vol =
     (if \<not> mounted vol then 0 else ucast (sectors_per_cluster (boot vol)) * FAT_SECTOR_SIZE)"

text \<open>
  \<open>FAT_GetNextCluster\<close> reads the FAT sector of the entry into the volume's scratch
  buffer; it returns the next cluster with the volume after the read.
\<close>

definition FAT_GetNextCluster :: "FAT_Volume \<Rightarrow> u32 \<Rightarrow> u32 \<times> FAT_Volume" where
  "FAT_GetNextCluster vol cluster =
     (if \<not> mounted vol \<or> cluster < 2 then (0, vol)
      else
        let fat_offset = cluster * 4;
            fat_sector = fat_start_sector (boot vol) + fat_offset div FAT_SECTOR_SIZE;
            entry_offset = fat_offset mod FAT_SECTOR_SIZE;
            (status, hsd', buf') = SD_ReadBlock (hsd vol) (sector_buffer vol) 0 fat_sector;
            vol' = vol\<lparr>hsd := hsd', sector_buffer := buf'\<rparr>
        in if status \<noteq> SD_OK then (0, vol')
           else (FAT_Read32 (sector_buffer vol') (unat entry_offset) AND 0x0FFFFFFF, vol'))"

definition FAT_ClusterToSector :: "FAT_Volume \<Rightarrow> u32 \<Rightarrow> u32" where
  "FAT_ClusterToSector vol cluster =
     (if \<not> mounted vol \<or> cluster < 2 then 0
      else data_start_sector (boot vol) + (cluster - 2) * ucast (sectors_per_cluster (boot vol)))"

text \<open>
  \<open>FAT_ConvertFilename\<close>.  The input is a C string: the characters of \<open>input\<close> followed
  by the terminating zero, which \<open>cstr_at\<close> yields at the index \<open>length input\<close>; the
  loops never read past the first zero.  \<open>toupper\<close> is that of the C locale.  The result
  is the output memory as the function left it, \<open>None\<close> at an index it has not written.
  The indices \<open>i\<close> and \<open>o\<close> of the source are \<open>i\<close> and \<open>oi\<close>.
\<close>

definition cstr_at :: "string \<Rightarrow> nat \<Rightarrow> char" where
  "cstr_at s i = (if i < length s then s ! i else CHR 0x00)"

definition toupper :: "char \<Rightarrow> char" where
  "toupper c =
     (let n = (of_char c :: nat) in if 97 \<le> n \<and> n \<le> 122 then char_of (n - 32) else c)"

function FAT_ConvertFilename_name ::
  "string \<Rightarrow> (nat \<rightharpoonup> char) \<Rightarrow> nat \<Rightarrow> nat \<Rightarrow> (nat \<rightharpoonup> char) \<times> nat \<times> nat" where
  "FAT_ConvertFilename_name input outp i oi =
     (if cstr_at input i \<noteq> CHR 0x00 \<and> cstr_at input i \<noteq> CHR ''.'' \<and> oi < 8
      then FAT_ConvertFilename_name input (outp(oi \<mapsto> toupper (cstr_at input i))) (i + 1) (oi + 1)
      else (outp, i, oi))"
  by pat_completeness auto
termination
  by (relation "measure (\<lambda>(input, outp, i, oi). 8 - oi)") auto

function FAT_ConvertFilename_skip :: "string \<Rightarrow> nat \<Rightarrow> nat" where
  "FAT_ConvertFilename_skip input i =
     (if cstr_at input i \<noteq> CHR 0x00 \<and> cstr_at input i \<noteq> CHR ''.''
      then FAT_ConvertFilename_skip input (i + 1) else i)"
  by pat_completeness auto
termination
  by (relation "measure (\<lambda>(input, i). length input - i)")
    (auto simp: cstr_at_def split: if_splits)

function FAT_ConvertFilename_ext ::
  "string \<Rightarrow> (nat \<rightharpoonup> char) \<Rightarrow> nat \<Rightarrow> nat \<Rightarrow> (nat \<rightharpoonup> char) \<times> nat \<times> nat" where
  "FAT_ConvertFilename_ext input outp i oi =
     (if cstr_at input i \<noteq> CHR 0x00 \<and> oi < 11
      then FAT_ConvertFilename_ext input (outp(oi \<mapsto> toupper (cstr_at input i))) (i + 1) (oi + 1)
      else (outp, i, oi))"
  by pat_completeness auto
termination
  by (relation "measure (\<lambda>(input, outp, i, oi). 11 - oi)") auto

declare FAT_ConvertFilename_name.simps [simp del]
declare FAT_ConvertFilename_skip.simps [simp del]
declare FAT_ConvertFilename_ext.simps [simp del]

definition FAT_ConvertFilename :: "string \<Rightarrow> (nat \<rightharpoonup> char)" where
  "FAT_ConvertFilename input =
     (let out0 = (\<lambda>k. if k < FAT_MAX_FILENAME then Some CHR '' '' else None);
          (out1, i1, o1) = FAT_ConvertFilename_name input out0 0 0;
          i2 = FAT_ConvertFilename_skip input i1;
          i3 = (if cstr_at input i2 = CHR ''.'' then i2 + 1 else i2);
          (out2, i4, o2) = FAT_ConvertFilename_ext input out1 i3 8
      in out2)"

text \<open>The first eleven bytes of an output memory, zero where nothing was written.\<close>

definition written :: "(nat \<rightharpoonup> char) \<Rightarrow> string" where
  "written outp =
     map (\<lambda>k. case outp k of Some c \<Rightarrow> c | None \<Rightarrow> CHR 0x00) [0..<FAT_MAX_FILENAME]"

text \<open>
  A canonical 8.3 name: eleven bytes, none of them the terminator, a dot or a lower-case
  letter.
\<close>

definition canonical_83 :: "string \<Rightarrow> bool" where
  "canonical_83 name \<longleftrightarrow>
     length name = 11 \<and>
     list_all (\<lambda>c. c \<noteq> CHR 0x00 \<and> c \<noteq> CHR ''.'' \<and> toupper c = c) name"

section \<open>Media reader (media\_file\_reader.h, media\_file\_reader.c)\<close>

definition MAX_AUDIO_READ_SAMPLES :: u32 where
  "MAX_AUDIO_READ_SAMPLES = AUDIO_BUFFER_SAMPLES"

definition DAC_SILENCE :: u16 where
  "DAC_SILENCE = 2048"

definition MAX_MULTIBLOCK_COUNT :: u32 where
  "MAX_MULTIBLOCK_COUNT = 16"

definition MEDIA_HEADER_SIZE :: u32 where
  "MEDIA_HEADER_SIZE = 20"

definition MEDIA_FRAME_SIZE :: u32 where
  "MEDIA_FRAME_SIZE = 1024"

definition MEDIA_DEFAULT_VOLUME :: u8 where
  "MEDIA_DEFAULT_VOLUME = 50"

text \<open>
  The handle holds its volume by value, as the volume holds its SD handle: \<open>Media_Open\<close>
  stores the volume it is given, and afterwards the program reaches the volume only through
  the handle.  A \<open>NULL\<close> volume pointer, which only a handle that was never opened has, is
  the unmounted volume \<open>FAT_Volume_zero\<close>: the FAT functions test the pointer and the
  \<open>mounted\<close> flag together.  The \<open>NULL\<close> tests of the handle itself and of the caller's
  buffers are not modelled: the functions are applied to a handle and to buffers.
\<close>

record MediaFile =
  frame_count :: u32
  audio_size :: u32
  sample_rate :: u32
  channels :: u32
  bits_per_sample :: u32
  first_cluster :: u32
  file_size :: u32
  vol :: FAT_Volume
  video_offset :: u32
  audio_offset :: u32
  current_frame :: u32
  current_sample :: u32
  volume_percent :: u8
  is_open :: bool
  cached_cluster :: u32
  cached_cluster_index :: u32
  is_contiguous :: bool
  first_sector :: u32

text \<open>
  The \<open>for\<close> loop of \<open>Media_GetClusterAt\<close>, from index \<open>i\<close> at \<open>cluster\<close>.
\<close>

function Media_GetClusterAt_loop :: "FAT_Volume \<Rightarrow> u32 \<Rightarrow> u32 \<Rightarrow> u32 \<Rightarrow> u32 \<times> FAT_Volume" where
  "Media_GetClusterAt_loop v cluster i target_index =
     (if i < target_index \<and> \<not> FAT_IsEndOfChain cluster
      then case FAT_GetNextCluster v cluster of
             (cluster', v') \<Rightarrow> Media_GetClusterAt_loop v' cluster' (i + 1) target_index
      else (cluster, v))"
  by pat_completeness auto
termination
proof (relation "measure (\<lambda>(v, cluster, i, target_index). unat target_index - unat i)")
  show "wf (measure (\<lambda>(v, cluster, i, target_index). unat target_index - unat i))"
    by simp
next
  fix v :: FAT_Volume and cluster i target_index x xa y :: "u32"
  fix y :: FAT_Volume
  assume "i < target_index \<and> \<not> FAT_IsEndOfChain cluster"
  then have lt: "i < target_index" by simp
  then have "unat i < unat target_index" by (simp add: word_less_nat_alt)
  moreover from lt have "i \<noteq> - 1"
    by (metis word_order.extremum_strict)
  then have "unat (i + 1) = unat i + 1"
    by (metis add.commute unatSuc Suc_eq_plus1 add_eq_0_iff)
  ultimately show "((y, xa, i + 1, target_index), v, cluster, i, target_index)
       \<in> measure (\<lambda>(v, cluster, i, target_index). unat target_index - unat i)"
    by simp
qed

declare Media_GetClusterAt_loop.simps [simp del]

definition Media_GetClusterAt :: "MediaFile \<Rightarrow> u32 \<Rightarrow> u32 \<times> MediaFile" where
  "Media_GetClusterAt media byte_offset =
     (let cluster_size = FAT_GetClusterSize (vol media)
      in if cluster_size = 0 then (0, media)
         else
           let target_index = byte_offset div cluster_size;
               (cluster0, start_index) =
                 (if cached_cluster media \<noteq> 0 \<and> cached_cluster_index media \<le> target_index
                  then (cached_cluster media, cached_cluster_index media)
                  else (first_cluster media, 0));
               (cluster, v') = Media_GetClusterAt_loop (vol media) cluster0 start_index target_index
           in (cluster, media\<lparr>vol := v', cached_cluster := cluster,
                                cached_cluster_index := target_index\<rparr>))"


text \<open>
  The \<open>while\<close> loop of \<open>Media_ReadAtFragmented\<close>.  The destination is the caller's
  buffer with the offset \<open>pos\<close> that the source keeps by advancing the pointer.  Each
  round copies at least one byte and at most \<open>sz\<close>, which the termination proof shows.
\<close>

function Media_ReadAtFragmented_loop ::
  "u32 \<Rightarrow> MediaFile \<Rightarrow> u32 \<Rightarrow> bytes \<Rightarrow> nat \<Rightarrow> u32 \<Rightarrow> FAT_Status \<times> MediaFile \<times> bytes" where
  "Media_ReadAtFragmented_loop cluster_size media offset buffer pos sz =
     (if \<not> (0 < sz \<and> offset < file_size media) then (FAT_OK, media, buffer)
      else
        case Media_GetClusterAt media offset of (cluster, media1) \<Rightarrow>
          if FAT_IsEndOfChain cluster then (FAT_OK, media1, buffer)
          else
            let offset_in_cluster = offset mod cluster_size;
                sector = FAT_ClusterToSector (vol media1) cluster
                           + offset_in_cluster div SD_BLOCK_SIZE;
                sector_offset = offset_in_cluster mod SD_BLOCK_SIZE
            in case SD_ReadBlock (hsd (vol media1)) (sector_buffer (vol media1)) 0 sector of
                 (status, hsd', buf') \<Rightarrow>
                   let media2 = media1\<lparr>vol := (vol media1)\<lparr>hsd := hsd', sector_buffer := buf'\<rparr>\<rparr>
                   in if status \<noteq> SD_OK then (FAT_ERROR_READ, media2, buffer)
                      else
                        let available = SD_BLOCK_SIZE - sector_offset;
                            to_copy0 = (if sz < available then sz else available);
                            to_copy = (if file_size media2 < offset + to_copy0
                                       then file_size media2 - offset else to_copy0)
                        in Media_ReadAtFragmented_loop cluster_size media2 (offset + to_copy)
                             (blit buffer pos (sector_buffer (vol media2)) (unat sector_offset)
                                (unat to_copy))
                             (pos + unat to_copy) (sz - to_copy))"
  by pat_completeness auto
termination
proof (relation "measure (\<lambda>(cluster_size, media, offset, buffer, pos, sz). unat sz)",
    goal_cases)
  case 1
  show ?case by simp
next
  case (2 cluster_size media offset buffer pos sz x1 media1 oic sector so x2 hsd' y buf' media2
      available to_copy0 to_copy)
  have fs: "file_size media1 = file_size media"
    using 2(2) by (auto simp: Media_GetClusterAt_def Let_def split: if_splits prod.splits)
  have fs2: "file_size media2 = file_size media"
    using 2(9) fs by simp
  have so: "so < 512"
    using 2(6) by (simp add: SD_BLOCK_SIZE_def word_mod_less_divisor)
  have szp: "0 < sz" and off: "offset < file_size media" using 2(1) by auto
  have av: "available = 512 - so" using 2(11) by (simp add: SD_BLOCK_SIZE_def)
  have uso: "unat so < 512" using so by (simp add: word_less_nat_alt)
  have uav: "unat available = 512 - unat so"
    unfolding av using so by (subst unat_sub) (simp_all add: word_le_nat_alt word_less_nat_alt)
  have usz: "0 < unat sz" using szp by (simp add: word_less_nat_alt)
  have uoff: "unat offset < unat (file_size media)" using off by (simp add: word_less_nat_alt)
  have t0: "0 < unat to_copy0 \<and> unat to_copy0 \<le> unat sz \<and> unat to_copy0 \<le> 512"
    unfolding 2(12) using uav usz uso by (auto simp: word_less_nat_alt)
  have tc: "0 < unat to_copy \<and> unat to_copy \<le> unat sz"
  proof (cases "file_size media < offset + to_copy0")
    case True
    then have e: "to_copy = file_size media - offset" using 2(13) fs2 by simp
    have d: "unat (file_size media - offset) = unat (file_size media) - unat offset"
      using off by (subst unat_sub) (simp_all add: word_le_nat_alt word_less_nat_alt)
    have "unat (offset + to_copy0) = (unat offset + unat to_copy0) mod 2^32"
      by (simp add: unat_word_ariths)
    with True have lt: "unat (file_size media) < (unat offset + unat to_copy0) mod 2^32"
      by (simp add: word_less_nat_alt)
    have "unat (file_size media) - unat offset \<le> unat to_copy0"
    proof (cases "unat offset + unat to_copy0 < 2^32")
      case True
      with lt show ?thesis by simp
    next
      case False
      have "unat offset < 2^32" using unsigned_less [of offset, where 'a = nat] by simp
      moreover have "unat to_copy0 < 2^32" using t0 by simp
      ultimately have "(unat offset + unat to_copy0) mod 2^32
                       = unat offset + unat to_copy0 - 2^32"
        using False by (simp add: mod_if)
      with lt t0 uoff show ?thesis by simp
    qed
    with e d t0 uoff show ?thesis by simp
  next
    case False
    then show ?thesis using t0 2(13) fs2 by simp
  qed
  then have "to_copy \<le> sz" by (simp add: word_le_nat_alt)
  then have "unat (sz - to_copy) = unat sz - unat to_copy" by (rule unat_sub)
  with tc have "unat (sz - to_copy) < unat sz" by simp
  then show ?case by simp
qed

declare Media_ReadAtFragmented_loop.simps [simp del]

definition Media_ReadAtFragmented ::
  "MediaFile \<Rightarrow> u32 \<Rightarrow> bytes \<Rightarrow> u32 \<Rightarrow> FAT_Status \<times> MediaFile \<times> bytes" where
  "Media_ReadAtFragmented media offset buffer sz =
     (let cluster_size = FAT_GetClusterSize (vol media)
      in if cluster_size = 0 then (FAT_ERROR, media, buffer)
         else Media_ReadAtFragmented_loop cluster_size media offset buffer 0 sz)"


text \<open>
  The \<open>while\<close> loop of \<open>Media_ReadAtContiguous\<close>.  In the aligned branch the number of
  blocks \<open>count\<close> is zero when fewer than 512 bytes of the file remain at \<open>offset\<close>;
  the round then reads one block and advances by nothing, so the loop need not end.  The
  result is \<open>None\<close> when it does not.
\<close>

partial_function (option) Media_ReadAtContiguous_loop ::
  "MediaFile \<Rightarrow> u32 \<Rightarrow> bytes \<Rightarrow> nat \<Rightarrow> u32 \<Rightarrow> (FAT_Status \<times> MediaFile \<times> bytes) option" where
  "Media_ReadAtContiguous_loop media offset buffer pos sz =
     (if \<not> (0 < sz \<and> offset < file_size media) then Some (FAT_OK, media, buffer)
      else
        let sector = first_sector media + offset div SD_BLOCK_SIZE;
            sector_offset = offset mod SD_BLOCK_SIZE
        in if sector_offset \<noteq> 0 \<or> sz < SD_BLOCK_SIZE
           then
             case SD_ReadBlock (hsd (vol media)) (sector_buffer (vol media)) 0 sector of
               (status, hsd', buf') \<Rightarrow>
                 let media1 = media\<lparr>vol := (vol media)\<lparr>hsd := hsd', sector_buffer := buf'\<rparr>\<rparr>
                 in if status \<noteq> SD_OK then Some (FAT_ERROR_READ, media1, buffer)
                    else
                      let available = SD_BLOCK_SIZE - sector_offset;
                          to_copy0 = (if sz < available then sz else available);
                          to_copy = (if file_size media1 < offset + to_copy0
                                     then file_size media1 - offset else to_copy0)
                      in Media_ReadAtContiguous_loop media1 (offset + to_copy)
                           (blit buffer pos (sector_buffer (vol media1)) (unat sector_offset)
                              (unat to_copy))
                           (pos + unat to_copy) (sz - to_copy)
           else
             let sectors_available = (file_size media - offset) div SD_BLOCK_SIZE;
                 sectors_needed = sz div SD_BLOCK_SIZE;
                 count0 = (if sectors_needed < sectors_available then sectors_needed
                           else sectors_available);
                 count = (if MAX_MULTIBLOCK_COUNT < count0 then MAX_MULTIBLOCK_COUNT else count0)
             in case (if 1 < count then SD_ReadMultipleBlocks (hsd (vol media)) buffer pos sector count
                      else SD_ReadBlock (hsd (vol media)) buffer pos sector) of
                  (status, hsd', buffer') \<Rightarrow>
                    let media1 = media\<lparr>vol := (vol media)\<lparr>hsd := hsd'\<rparr>\<rparr>
                    in if status \<noteq> SD_OK then Some (FAT_ERROR_READ, media1, buffer')
                       else
                         let bytes_read = count * SD_BLOCK_SIZE
                         in Media_ReadAtContiguous_loop media1 (offset + bytes_read) buffer'
                              (pos + unat bytes_read) (sz - bytes_read))"

definition Media_ReadAtContiguous ::
  "MediaFile \<Rightarrow> u32 \<Rightarrow> bytes \<Rightarrow> u32 \<Rightarrow> (FAT_Status \<times> MediaFile \<times> bytes) option" where
  "Media_ReadAtContiguous media offset buffer sz =
     Media_ReadAtContiguous_loop media offset buffer 0 sz"

definition Media_ReadAt ::
  "MediaFile \<Rightarrow> u32 \<Rightarrow> bytes \<Rightarrow> u32 \<Rightarrow> (FAT_Status \<times> MediaFile \<times> bytes) option" where
  "Media_ReadAt media offset buffer sz =
     (if \<not> is_open media then Some (FAT_ERROR_INVALID_PARAM, media, buffer)
      else if is_contiguous media \<and> first_sector media \<noteq> 0
      then Media_ReadAtContiguous media offset buffer sz
      else Some (Media_ReadAtFragmented media offset buffer sz))"


text \<open>
  The \<open>while\<close> loop of \<open>Media_CheckContiguous\<close>: \<open>False\<close> when it returns from the
  function at a gap, \<open>True\<close> when it leaves the loop at the end of the chain or at the
  safety limit.  The loop ends on every input: while the gap test is active the cluster
  grows by one each round and stays below \<open>FAT_CLUSTER_END\<close>.
\<close>

function Media_CheckContiguous_loop ::
  "FAT_Volume \<Rightarrow> u32 \<Rightarrow> u32 \<Rightarrow> u32 \<Rightarrow> u32 \<Rightarrow> bool \<times> FAT_Volume" where
  "Media_CheckContiguous_loop v expected_clusters cluster prev count =
     (if FAT_IsEndOfChain cluster then (True, v)
      else
        let count1 = count + 1
        in if 1 < count1 \<and> cluster \<noteq> prev + 1 then (False, v)
           else
             case FAT_GetNextCluster v cluster of
               (next_cluster, v') \<Rightarrow>
                 if expected_clusters + 10 < count1 then (True, v')
                 else Media_CheckContiguous_loop v' expected_clusters next_cluster cluster count1)"
  by pat_completeness auto
termination
proof (relation "measure (\<lambda>(v, expected_clusters, cluster, prev, count).
    let c = unat count;
        r = (if cluster = prev + 1 \<and> \<not> FAT_IsEndOfChain cluster
             then 268435448 - unat cluster else 0)
    in if c = 4294967295 then 268435450
       else if c = 0 then 268435449
       else if c + r < 4294967295 then r
       else 268435450 + (4294967295 - c))", goal_cases)
  case 1
  show ?case by simp
next
  case (2 v expected_clusters cluster prev count count1 next_cluster v')
  define r' :: nat where
    "r' = (if next_cluster = cluster + 1 \<and> \<not> FAT_IsEndOfChain next_cluster
           then 268435448 - unat next_cluster else 0)"
  define r :: nat where
    "r = (if cluster = prev + 1 \<and> \<not> FAT_IsEndOfChain cluster
          then 268435448 - unat cluster else 0)"
  define c where "c = unat count"
  define c' where "c' = unat (count + 1)"
  have c1: "count1 = count + 1" using 2 by simp
  have "\<not> cluster < 2" "\<not> 268435448 \<le> cluster"
    using 2(1) by (simp_all add: FAT_IsEndOfChain_def FAT_CLUSTER_END_def)
  then have neoc: "2 \<le> unat cluster \<and> unat cluster < 268435448"
    by (simp add: word_less_nat_alt word_le_nat_alt)
  have r'K: "r' \<le> 268435448" by (simp add: r'_def)
  have r'_step: "r' \<le> 268435447 - unat cluster"
  proof (cases "next_cluster = cluster + 1 \<and> \<not> FAT_IsEndOfChain next_cluster")
    case True
    have "unat (cluster + 1) = (unat cluster + 1) mod 2^32"
      by (simp add: unat_word_ariths)
    then have "unat next_cluster = unat cluster + 1" using neoc True by simp
    then show ?thesis using True by (simp add: r'_def)
  next
    case False
    then show ?thesis by (auto simp: r'_def)
  qed
  have ub: "c < 4294967296"
    using unsigned_less [of count, where 'a = nat] by (simp add: c_def)
  have up: "c' = (c + 1) mod 4294967296"
    by (simp add: unat_word_ariths c_def c'_def)
  have active: "1 < c' \<Longrightarrow> r = 268435448 - unat cluster"
  proof -
    assume "1 < c'"
    then have "1 < count + 1" by (simp add: word_less_nat_alt c'_def)
    with 2(3) c1 have "cluster = prev + 1" by simp
    with 2(1) show ?thesis by (simp add: r_def)
  qed
  have key: "(if c' = 4294967295 then 268435450
              else if c' = 0 then 268435449
              else if c' + r' < 4294967295 then r'
              else 268435450 + (4294967295 - c'))
           < (if c = 4294967295 then 268435450
              else if c = 0 then 268435449
              else if c + r < 4294967295 then r
              else 268435450 + (4294967295 - c))"
  proof -
    consider (A) "c = 4294967295" | (B) "c = 0" | (C) "0 < c" "c < 4294967295"
      using ub by linarith
    then show ?thesis
    proof cases
      case A
      then have "c' = 0" using up by simp
      then show ?thesis using A by simp
    next
      case B
      then have "c' = 1" using up by simp
      then show ?thesis using B r'K by simp
    next
      case C
      then have u: "c' = c + 1" using up by simp
      then have "r = 268435448 - unat cluster" using C active by simp
      then show ?thesis using C u r'_step neoc by (auto split: if_splits)
    qed
  qed
  show ?case
    unfolding c1 in_measure
    by (simp only: prod.case Let_def) (use key in \<open>simp only: r'_def r_def c_def c'_def\<close>)
qed

declare Media_CheckContiguous_loop.simps [simp del]

definition Media_CheckContiguous :: "MediaFile \<Rightarrow> bool \<times> MediaFile" where
  "Media_CheckContiguous media =
     (if \<not> is_open media then (False, media)
      else
        let cluster_size = FAT_GetClusterSize (vol media)
        in if cluster_size = 0 then (False, media)
           else
             let expected_clusters = (file_size media + cluster_size - 1) div cluster_size;
                 (contiguous, v') =
                   Media_CheckContiguous_loop (vol media) expected_clusters
                     (first_cluster media) (first_cluster media) 0
             in if \<not> contiguous
                then (False, media\<lparr>vol := v', is_contiguous := False, first_sector := 0\<rparr>)
                else (True, media\<lparr>vol := v', is_contiguous := True,
                                   first_sector := FAT_ClusterToSector v' (first_cluster media),
                                   cached_cluster := first_cluster media,
                                   cached_cluster_index := 0\<rparr>))"

definition SD_Handle_zero :: SD_Handle where
  "SD_Handle_zero =
     \<lparr>high_capacity = False, sd_initialized = False, card_accepts = (\<lambda>addr. False),
      card_data = (\<lambda>addr. Token_Missing), io_log = []\<rparr>"

definition FAT_Volume_zero :: FAT_Volume where
  "FAT_Volume_zero =
     \<lparr>hsd = SD_Handle_zero,
      boot = \<lparr>bytes_per_sector = 0, sectors_per_cluster = 0, reserved_sectors = 0, num_fats = 0,
              sectors_per_fat = 0, root_cluster = 0, total_sectors = 0, partition_lba = 0,
              fat_start_sector = 0, data_start_sector = 0\<rparr>,
      sector_buffer = (\<lambda>k. 0), mounted = False\<rparr>"

definition MediaFile_zero :: MediaFile where
  "MediaFile_zero =
     \<lparr>frame_count = 0, audio_size = 0, sample_rate = 0, channels = 0, bits_per_sample = 0,
      first_cluster = 0, file_size = 0, vol = FAT_Volume_zero, video_offset = 0, audio_offset = 0,
      current_frame = 0, current_sample = 0, volume_percent = 0, is_open = False,
      cached_cluster = 0, cached_cluster_index = 0, is_contiguous = False, first_sector = 0\<rparr>"

definition Read32LE :: "bytes \<Rightarrow> nat \<Rightarrow> u32" where
  "Read32LE buf offset =
     ucast (buf offset) OR push_bit 8 (ucast (buf (offset + 1)))
       OR push_bit 16 (ucast (buf (offset + 2))) OR push_bit 24 (ucast (buf (offset + 3)))"

definition Media_Open ::
  "MediaFile \<Rightarrow> FAT_Volume option \<Rightarrow> FAT_FileInfo option \<Rightarrow> FAT_Status \<times> MediaFile" where
  "Media_Open media vol_ptr file_info_ptr =
     (case (vol_ptr, file_info_ptr) of
        (Some v, Some file_info) \<Rightarrow>
          if \<not> mounted v then (FAT_ERROR_INVALID_PARAM, media)
          else
            let media1 = MediaFile_zero\<lparr>vol := v,
                           first_cluster := fi_first_cluster file_info,
                           file_size := fi_size file_info\<rparr>;
                sector = FAT_ClusterToSector v (fi_first_cluster file_info);
                (status, hsd', buf') = SD_ReadBlock (hsd v) (sector_buffer v) 0 sector;
                media2 = media1\<lparr>vol := v\<lparr>hsd := hsd', sector_buffer := buf'\<rparr>\<rparr>
            in if status \<noteq> SD_OK then (FAT_ERROR_READ, media2)
               else
                 let header = blit (\<lambda>k. 0) 0 (sector_buffer (vol media2)) 0
                                (unat MEDIA_HEADER_SIZE);
                     media3 = media2\<lparr>frame_count := Read32LE header 0,
                                audio_size := Read32LE header 4,
                                sample_rate := Read32LE header 8,
                                channels := Read32LE header 12,
                                bits_per_sample := Read32LE header 16\<rparr>;
                     media4 = media3\<lparr>video_offset := MEDIA_HEADER_SIZE,
                                audio_offset :=
                                  MEDIA_HEADER_SIZE + frame_count media3 * MEDIA_FRAME_SIZE\<rparr>;
                     media5 = media4\<lparr>current_frame := 0, current_sample := 0,
                                volume_percent := MEDIA_DEFAULT_VOLUME, is_open := True\<rparr>
                 in (FAT_OK, snd (Media_CheckContiguous media5))
      | _ \<Rightarrow> (FAT_ERROR_INVALID_PARAM, media))"

definition Media_Close :: "MediaFile \<Rightarrow> MediaFile" where
  "Media_Close media =
     media\<lparr>is_open := False, current_frame := 0, current_sample := 0, cached_cluster := 0,
           cached_cluster_index := 0, is_contiguous := False, first_sector := 0\<rparr>"

definition Media_SetVolume :: "MediaFile \<Rightarrow> u8 \<Rightarrow> MediaFile" where
  "Media_SetVolume media percent =
     media\<lparr>volume_percent := (if 100 < percent then 100 else percent)\<rparr>"

definition Media_ReadFrameAt ::
  "MediaFile \<Rightarrow> u32 \<Rightarrow> bytes \<Rightarrow> (FAT_Status \<times> MediaFile \<times> bytes) option" where
  "Media_ReadFrameAt media frame_number buffer =
     (if \<not> is_open media then Some (FAT_ERROR_INVALID_PARAM, media, buffer)
      else if frame_count media \<le> frame_number then Some (FAT_ERROR_INVALID_PARAM, media, buffer)
      else
        let offset = video_offset media + frame_number * MEDIA_FRAME_SIZE
        in Media_ReadAt media offset buffer MEDIA_FRAME_SIZE)"

text \<open>
  The conversion of one sample in \<open>Media_ReadAudioStereo\<close>: \<open>int32\<close> wraps an integer
  into the range of \<open>int32_t\<close>; the division truncates towards zero and the right shift
  of the signed sum is arithmetic.
\<close>

definition int32 :: "int \<Rightarrow> int" where
  "int32 k = signed_take_bit 31 k"

definition pcm_to_dac :: "u16 \<Rightarrow> u8 \<Rightarrow> u16" where
  "pcm_to_dac raw volume =
     (let scaled = int32 (int32 (sint raw * uint volume) sdiv 100)
      in word_of_int (drop_bit 4 (int32 (scaled + 32768))))"

text \<open>
  Element \<open>k\<close> of the static \<open>int16_t\<close> array \<open>s_audio_buffer\<close>, which the reader fills
  as bytes (little endian).  The two loops over the output buffers follow; \<open>left\<close> and
  \<open>right\<close> are distinct arrays.
\<close>

definition s_audio_buffer_at :: "bytes \<Rightarrow> nat \<Rightarrow> u16" where
  "s_audio_buffer_at buf k = ucast (buf (2 * k)) OR push_bit 8 (ucast (buf (2 * k + 1)))"

fun Media_silence_loop ::
  "(nat \<Rightarrow> u16) \<times> (nat \<Rightarrow> u16) \<Rightarrow> nat \<Rightarrow> nat \<Rightarrow> (nat \<Rightarrow> u16) \<times> (nat \<Rightarrow> u16)" where
  "Media_silence_loop (left, right) i 0 = (left, right)"
| "Media_silence_loop (left, right) i (Suc n) =
     Media_silence_loop (left(i := DAC_SILENCE), right(i := DAC_SILENCE)) (Suc i) n"

fun Media_convert_loop ::
  "bytes \<Rightarrow> u8 \<Rightarrow> (nat \<Rightarrow> u16) \<times> (nat \<Rightarrow> u16) \<Rightarrow> nat \<Rightarrow> nat
     \<Rightarrow> (nat \<Rightarrow> u16) \<times> (nat \<Rightarrow> u16)" where
  "Media_convert_loop buf volume (left, right) i 0 = (left, right)"
| "Media_convert_loop buf volume (left, right) i (Suc n) =
     (let l_raw = s_audio_buffer_at buf (i * 2);
          r_raw = s_audio_buffer_at buf (i * 2 + 1)
      in Media_convert_loop buf volume
           (left(i := pcm_to_dac l_raw volume), right(i := pcm_to_dac r_raw volume)) (Suc i) n)"

definition Media_ReadAudioStereo ::
  "MediaFile \<Rightarrow> bytes \<Rightarrow> (nat \<Rightarrow> u16) \<Rightarrow> (nat \<Rightarrow> u16) \<Rightarrow> u32
     \<Rightarrow> (FAT_Status \<times> MediaFile \<times> bytes \<times> (nat \<Rightarrow> u16) \<times> (nat \<Rightarrow> u16)) option" where
  "Media_ReadAudioStereo media s_audio_buffer left right count_arg =
     (if \<not> is_open media then Some (FAT_ERROR_INVALID_PARAM, media, s_audio_buffer, left, right)
      else
        let count = (if MAX_AUDIO_READ_SAMPLES < count_arg then MAX_AUDIO_READ_SAMPLES
                     else count_arg);
            bytes_per_sample = 4;
            total_samples = audio_size media div bytes_per_sample
        in if total_samples \<le> current_sample media
           then Some (FAT_OK, media, s_audio_buffer,
                      Media_silence_loop (left, right) 0 (unat count))
           else
             let available = total_samples - current_sample media;
                 to_read = (if count < available then count else available);
                 offset = audio_offset media + current_sample media * bytes_per_sample;
                 bytes_to_read = to_read * bytes_per_sample
             in case Media_ReadAt media offset s_audio_buffer bytes_to_read of
                  None \<Rightarrow> None
                | Some (status, media1, s_audio_buffer') \<Rightarrow>
                    if status \<noteq> FAT_OK
                    then Some (FAT_ERROR_READ, media1, s_audio_buffer',
                               Media_silence_loop (left, right) 0 (unat count))
                    else
                      let (left1, right1) =
                            Media_convert_loop s_audio_buffer' (volume_percent media1)
                              (left, right) 0 (unat to_read);
                          media2 = media1\<lparr>current_sample := current_sample media1 + to_read\<rparr>;
                          (left2, right2) =
                            Media_silence_loop (left1, right1) (unat to_read)
                              (unat count - unat to_read)
                      in Some (FAT_OK, media2, s_audio_buffer', left2, right2))"

section \<open>Reference quantities and concrete states\<close>

text \<open>
  The drift as the specification writes it, over the mathematical integers: the video
  frame index minus the audio frame index, the latter the truncating quotient of the
  samples played by the samples per frame.
\<close>

definition spec_drift :: "AVSync_Handle \<Rightarrow> int" where
  "spec_drift sync =
     uint (video_frames_rendered sync)
       - uint (audio_samples_played sync) div uint (samples_per_frame sync)"

text \<open>The decision alone, for a call that returns.\<close>

definition decision_of :: "fault + (AVSync_Decision \<times> AVSync_Handle) \<Rightarrow> AVSync_Decision option" where
  "decision_of r = (case r of Inl e \<Rightarrow> None | Inr (d, sync') \<Rightarrow> Some d)"

text \<open>
  The synchronizer of the player: 32 kHz audio, 30 frames per second, default drift band,
  initialised and started; and the same after four half-buffer interrupts with four
  frames shown.
\<close>

definition sync_ready :: AVSync_Handle where
  "sync_ready = AVSync_Init AVSync_Handle_zero 32000 30 0"

definition sync_started :: AVSync_Handle where
  "sync_started = AVSync_Start sync_ready"

definition sync_behind :: AVSync_Handle where
  "sync_behind = sync_started\<lparr>audio_samples_played := 8192, video_frames_rendered := 4\<rparr>"

text \<open>A running synchronizer whose video frame counter has reached \<open>2^31\<close>.\<close>

definition sync_far :: AVSync_Handle where
  "sync_far = sync_started\<lparr>video_frames_rendered := 0x80000000\<rparr>"

text \<open>A running synchronizer one half buffer before its sample counter wraps around.\<close>

definition sync_late :: AVSync_Handle where
  "sync_late = sync_started\<lparr>audio_samples_played := 0xFFFFF800\<rparr>"

text \<open>
  An audio handle in playback whose previous refill request has not been served: the
  half-complete interrupt has set \<open>needs_refill\<close> and the foreground has not called
  \<open>audio_BufferFilled\<close> since.
\<close>

definition audio_pending :: Audio_Handle where
  "audio_pending =
     \<lparr>avsync = True, needs_refill = True, fill_half = AUDIO_BUFFER_FIRST_HALF,
      audio_state = AUDIO_STATE_PLAYING,
      audio_stats = \<lparr>samples_played = 2048, refill_count = 0, underrun_count = 0\<rparr>,
      audio_initialized = True\<rparr>"

text \<open>
  A card image for the examples: the card accepts every read command, the FAT sector at
  block 2080 holds the 32-bit entries \<open>entries\<close> (cluster numbers below 128), every block
  from the start of the data region on arrives, and for any other block the data token
  stays away.  The volume is that of the mount
  scenario of the specification: partition at block 2048, 32 reserved sectors, two FATs
  of 1024 sectors, eight sectors per cluster.
\<close>

definition fat_image :: "(nat \<Rightarrow> u32) \<Rightarrow> bytes" where
  "fat_image entries = (\<lambda>k. ucast (drop_bit (8 * (k mod 4)) (entries (k div 4))))"

definition example_card :: "(nat \<Rightarrow> u32) \<Rightarrow> u32 \<Rightarrow> SD_Data" where
  "example_card entries addr =
     (if addr = 2080 then Data (fat_image entries)
      else if 4128 \<le> addr then Data (\<lambda>k. ucast addr + of_nat k)
      else Token_Missing)"

definition example_volume :: "(nat \<Rightarrow> u32) \<Rightarrow> FAT_Volume" where
  "example_volume entries =
     \<lparr>hsd = \<lparr>high_capacity = True, sd_initialized = True, card_accepts = (\<lambda>addr. True),
              card_data = example_card entries, io_log = []\<rparr>,
      boot = \<lparr>bytes_per_sector = 512, sectors_per_cluster = 8, reserved_sectors = 32,
              num_fats = 2, sectors_per_fat = 1024, root_cluster = 2, total_sectors = 0x100000,
              partition_lba = 2048, fat_start_sector = 2080, data_start_sector = 4128\<rparr>,
      sector_buffer = (\<lambda>k. 0), mounted = True\<rparr>"

text \<open>
  An open media file of 50260 bytes (ten frames, 40000 bytes of audio) in the thirteen
  consecutive clusters 5 to 17; the same with the audio position at the end; a volume
  whose card sends no data token for any block; and the directory entry of the file.
\<close>

definition chain_5_17 :: "nat \<Rightarrow> u32" where
  "chain_5_17 c = (if 5 \<le> c \<and> c < 17 then of_nat c + 1 else 0x0FFFFFFF)"

definition media_example :: MediaFile where
  "media_example =
     \<lparr>frame_count = 10, audio_size = 40000, sample_rate = 32000, channels = 2,
      bits_per_sample = 16, first_cluster = 5, file_size = 50260,
      vol = example_volume chain_5_17, video_offset = 20, audio_offset = 10260,
      current_frame = 0, current_sample = 0, volume_percent = 50, is_open = True,
      cached_cluster = 5, cached_cluster_index = 0, is_contiguous = True, first_sector = 4152\<rparr>"

definition media_eof :: MediaFile where
  "media_eof = media_example\<lparr>current_sample := 10000\<rparr>"

definition dead_volume :: FAT_Volume where
  "dead_volume = (example_volume chain_5_17)
     \<lparr>hsd := (hsd (example_volume chain_5_17))\<lparr>card_data := (\<lambda>addr. Token_Missing)\<rparr>\<rparr>"

definition example_file_info :: FAT_FileInfo where
  "example_file_info = \<lparr>fi_first_cluster = 5, fi_size = 50260, fi_attributes = 0x20\<rparr>"

text \<open>Parts of the result of \<open>Media_ReadAudioStereo\<close>.\<close>

definition audio_status ::
  "(FAT_Status \<times> MediaFile \<times> bytes \<times> (nat \<Rightarrow> u16) \<times> (nat \<Rightarrow> u16)) option \<Rightarrow> FAT_Status option" where
  "audio_status r = map_option fst r"

definition audio_left ::
  "(FAT_Status \<times> MediaFile \<times> bytes \<times> (nat \<Rightarrow> u16) \<times> (nat \<Rightarrow> u16)) option \<Rightarrow> nat \<Rightarrow> u16 option" where
  "audio_left r k = map_option (\<lambda>(status, media, buf, left, right). left k) r"

definition audio_right ::
  "(FAT_Status \<times> MediaFile \<times> bytes \<times> (nat \<Rightarrow> u16) \<times> (nat \<Rightarrow> u16)) option \<Rightarrow> nat \<Rightarrow> u16 option" where
  "audio_right r k = map_option (\<lambda>(status, media, buf, left, right). right k) r"









text \<open>
  The card seen by block number.  \<open>sd_addr\<close> is the argument of the read command for a
  block; \<open>delivers\<close> says that the data of a block arrives, \<open>card_block\<close> is that data;
  \<open>blocks_arrive h s n\<close> says that the \<open>n\<close> blocks from \<open>s\<close> on arrive, and
  \<open>read_succeeds h s n\<close> that the card also accepts a read command for block \<open>s\<close>.
\<close>

definition sd_addr :: "SD_Handle \<Rightarrow> u32 \<Rightarrow> u32" where
  "sd_addr h block = (if high_capacity h then block else block * SD_BLOCK_SIZE)"

definition delivers :: "SD_Handle \<Rightarrow> u32 \<Rightarrow> bool" where
  "delivers h block = (case card_data h (sd_addr h block) of Data d \<Rightarrow> True | _ \<Rightarrow> False)"

definition card_block :: "SD_Handle \<Rightarrow> u32 \<Rightarrow> bytes" where
  "card_block h block = (case card_data h (sd_addr h block) of Data d \<Rightarrow> d | _ \<Rightarrow> (\<lambda>k. 0))"

fun blocks_arrive :: "SD_Handle \<Rightarrow> u32 \<Rightarrow> nat \<Rightarrow> bool" where
  "blocks_arrive h s 0 = True"
| "blocks_arrive h s (Suc n) = (delivers h s \<and> blocks_arrive h (s + 1) n)"

definition read_succeeds :: "SD_Handle \<Rightarrow> u32 \<Rightarrow> nat \<Rightarrow> bool" where
  "read_succeeds h s n = (card_accepts h (sd_addr h s) \<and> blocks_arrive h s n)"

text \<open>
  The destination after the \<open>n\<close> blocks from \<open>s\<close> on have been stored at \<open>pos\<close>, one after
  the other.
\<close>

definition blocks_into :: "SD_Handle \<Rightarrow> u32 \<Rightarrow> bytes \<Rightarrow> nat \<Rightarrow> nat \<Rightarrow> bytes" where
  "blocks_into h s buffer pos n =
     (\<lambda>j. if pos \<le> j \<and> j < pos + n * 512
          then card_block h (s + of_nat ((j - pos) div 512)) ((j - pos) mod 512)
          else buffer j)"



text \<open>The handle after one more command has gone to the card.\<close>

definition Media_after_command :: "MediaFile \<Rightarrow> SD_Command \<Rightarrow> MediaFile" where
  "Media_after_command media cmd =
     media\<lparr>vol := (vol media)\<lparr>hsd := (hsd (vol media))
       \<lparr>io_log := io_log (hsd (vol media)) @ [cmd]\<rparr>\<rparr>\<rparr>"

text \<open>
  The block count of one round of the aligned branch of \<open>Media_ReadAtContiguous\<close>, and
  the command that a read of \<open>k\<close> blocks from block \<open>s\<close> on sends to the card.
\<close>

definition Media_run_count :: "MediaFile \<Rightarrow> u32 \<Rightarrow> u32 \<Rightarrow> u32" where
  "Media_run_count media offset sz =
     (let sectors_available = (file_size media - offset) div SD_BLOCK_SIZE;
          sectors_needed = sz div SD_BLOCK_SIZE;
          count0 = (if sectors_needed < sectors_available then sectors_needed
                    else sectors_available)
      in if MAX_MULTIBLOCK_COUNT < count0 then MAX_MULTIBLOCK_COUNT else count0)"

definition run_command :: "SD_Handle \<Rightarrow> u32 \<Rightarrow> nat \<Rightarrow> SD_Command" where
  "run_command h s k = (if 2 \<le> k then CMD18 (sd_addr h s) (of_nat k) else CMD17 (sd_addr h s))"



section \<open>Properties of the synchronizer\<close>

lemma sint_small: "uint (w :: 32 word) < 2^31 \<Longrightarrow> sint w = uint w"
proof -
  assume a: "uint w < 2^31"
  have "(0::int) < 2^31" by simp
  then have "- (2^31) \<le> uint w" using uint_ge_0[of w] by linarith
  with a have "signed_take_bit 31 (uint w) = uint w"
    by (intro signed_take_bit_int_eq_self)
  then show ?thesis by (simp add: sint_uint)
qed

lemma sint_diff_small:
  assumes "uint (a :: 32 word) < 2^31" "uint (b :: 32 word) < 2^31"
  shows "sint (a - b) = uint a - uint b"
proof -
  have "(0::int) < 2^31" by simp
  then have "- (2^31) \<le> uint a - uint b" "uint a - uint b < 2^31"
    using assms uint_ge_0[of a] uint_ge_0[of b] by linarith+
  then have "signed_take_bit 31 (uint a - uint b) = uint a - uint b"
    by (intro signed_take_bit_int_eq_self)
  then show ?thesis using assms by (simp add: sint_word_diff sint_small)
qed

lemma sint_neg_small:
  assumes "uint (a :: 32 word) < 2^31"
  shows "sint (- a) = - uint a"
proof -
  have "(0::int) < 2^31" by simp
  then have "- (2^31) \<le> - uint a" "- uint a < 2^31"
    using assms uint_ge_0[of a] by linarith+
  then have "signed_take_bit 31 (- uint a) = - uint a"
    by (intro signed_take_bit_int_eq_self)
  then show ?thesis using assms by (simp add: sint_word_minus sint_small)
qed

lemma decision_running:
  assumes "sync_state sync = AVSYNC_STATE_RUNNING" "samples_per_frame sync \<noteq> 0"
    "uint (max_drift_frames sync) < 2^31" "uint (video_frames_rendered sync) < 2^31"
    "uint (audio_samples_played sync) div uint (samples_per_frame sync) < 2^31"
  shows "\<exists>d sync'. AVSync_GetFrameDecision sync = Inr (d, sync')
     \<and> (d = AVSYNC_RENDER_FRAME \<longleftrightarrow> \<bar>spec_drift sync\<bar> \<le> uint (max_drift_frames sync))
     \<and> (d = AVSYNC_SKIP_FRAME \<longleftrightarrow> spec_drift sync < - uint (max_drift_frames sync))
     \<and> (d = AVSYNC_REPEAT_FRAME \<longleftrightarrow> uint (max_drift_frames sync) < spec_drift sync)"
proof -
  let ?af = "audio_samples_played sync div samples_per_frame sync"
  have af: "uint ?af = uint (audio_samples_played sync) div uint (samples_per_frame sync)"
    by (simp add: uint_div)
  have d: "sint (video_frames_rendered sync - ?af) = spec_drift sync"
    using assms(4,5) af by (simp add: sint_diff_small spec_drift_def)
  obtain D :: int where D: "D = uint (max_drift_frames sync)" and nn: "0 \<le> D"
    by simp
  have m: "sint (- max_drift_frames sync) = - D"
    using assms(3) D by (simp add: sint_neg_small)
  have p: "sint (max_drift_frames sync) = D"
    using assms(3) D by (simp add: sint_small)
  have "\<exists>d sync'. AVSync_GetFrameDecision sync = Inr (d, sync')
     \<and> (d = AVSYNC_RENDER_FRAME \<longleftrightarrow> \<bar>spec_drift sync\<bar> \<le> D)
     \<and> (d = AVSYNC_SKIP_FRAME \<longleftrightarrow> spec_drift sync < - D)
     \<and> (d = AVSYNC_REPEAT_FRAME \<longleftrightarrow> D < spec_drift sync)"
    using assms(1,2) nn
    by (auto simp: AVSync_GetFrameDecision_def Let_def d m p)
  then show ?thesis by (simp add: D)
qed

lemma sync_started_fields:
  "sync_state sync_started = AVSYNC_STATE_RUNNING"
  "samples_per_frame sync_started = 1066"
  "max_drift_frames sync_started = 2"
  "audio_samples_played sync_started = 0"
  "video_frames_rendered sync_started = 0"
  "sync_initialized sync_started"
  by (simp_all add: sync_started_def sync_ready_def AVSync_Start_def AVSync_Init_def
      AVSync_Handle_zero_def AVSYNC_DEFAULT_MAX_DRIFT_def)

text \<open>
  C2, as amended.  In a state other than RUNNING the call returns NOT\_STARTED and leaves the
  handle as it is.  In RUNNING state with \<open>samples_per_frame = S \<ge> 1\<close> and
  \<open>max_drift_frames = D\<close>, when \<open>D\<close>, \<open>video_frames_rendered\<close> and the audio frame index
  \<open>audio_samples_played / S\<close> are all below \<open>2^31\<close> (the values a signed 32-bit integer
  holds), the call returns, and its decision is RENDER iff \<open>|drift| \<le> D\<close>, SKIP iff
  \<open>drift < -D\<close> and REPEAT iff \<open>drift > D\<close>, for
  \<open>drift = video_frames_rendered - audio_samples_played / S\<close>.
\<close>

theorem AVSync_GetFrameDecision_law:
  "(sync_state sync \<noteq> AVSYNC_STATE_RUNNING \<longrightarrow>
      AVSync_GetFrameDecision sync = Inr (AVSYNC_NOT_STARTED, sync))
   \<and> (sync_state sync = AVSYNC_STATE_RUNNING \<and> samples_per_frame sync \<noteq> 0
        \<and> uint (max_drift_frames sync) < 2^31 \<and> uint (video_frames_rendered sync) < 2^31
        \<and> uint (audio_samples_played sync) div uint (samples_per_frame sync) < 2^31 \<longrightarrow>
      (\<exists>d sync'. AVSync_GetFrameDecision sync = Inr (d, sync')
        \<and> (d = AVSYNC_RENDER_FRAME \<longleftrightarrow> \<bar>spec_drift sync\<bar> \<le> uint (max_drift_frames sync))
        \<and> (d = AVSYNC_SKIP_FRAME \<longleftrightarrow> spec_drift sync < - uint (max_drift_frames sync))
        \<and> (d = AVSYNC_REPEAT_FRAME \<longleftrightarrow> uint (max_drift_frames sync) < spec_drift sync)))"
  using decision_running [of sync] by (simp add: AVSync_GetFrameDecision_def)

theorem AVSync_GetFrameDecision_law_witness:
  "AVSync_GetFrameDecision sync_ready = Inr (AVSYNC_NOT_STARTED, sync_ready)
   \<and> sync_state sync_behind = AVSYNC_STATE_RUNNING
   \<and> spec_drift sync_behind = - 3
   \<and> decision_of (AVSync_GetFrameDecision sync_behind) = Some AVSYNC_SKIP_FRAME"
proof -
  have r: "sync_state sync_ready \<noteq> AVSYNC_STATE_RUNNING"
    by (simp add: sync_ready_def AVSync_Init_def AVSync_Handle_zero_def)
  have f: "sync_state sync_behind = AVSYNC_STATE_RUNNING" "samples_per_frame sync_behind = 1066"
    "max_drift_frames sync_behind = 2" "video_frames_rendered sync_behind = 4"
    "audio_samples_played sync_behind = 8192"
    by (simp_all add: sync_behind_def sync_started_fields)
  have dr: "spec_drift sync_behind = - 3"
    by (simp add: spec_drift_def f)
  have h: "sync_state sync_behind = AVSYNC_STATE_RUNNING \<and> samples_per_frame sync_behind \<noteq> 0
        \<and> uint (max_drift_frames sync_behind) < 2^31 \<and> uint (video_frames_rendered sync_behind) < 2^31
        \<and> uint (audio_samples_played sync_behind) div uint (samples_per_frame sync_behind) < 2^31"
    by (simp add: f)
  from AVSync_GetFrameDecision_law [of sync_ready] r
  have a: "AVSync_GetFrameDecision sync_ready = Inr (AVSYNC_NOT_STARTED, sync_ready)"
    by blast
  from AVSync_GetFrameDecision_law [of sync_behind] h
  obtain d sync' where g: "AVSync_GetFrameDecision sync_behind = Inr (d, sync')"
    and s: "d = AVSYNC_SKIP_FRAME \<longleftrightarrow> spec_drift sync_behind < - uint (max_drift_frames sync_behind)"
    by blast
  from s have "d = AVSYNC_SKIP_FRAME" by (simp add: dr f)
  with g have "decision_of (AVSync_GetFrameDecision sync_behind) = Some AVSYNC_SKIP_FRAME"
    by (simp add: decision_of_def)
  with a f(1) dr show ?thesis by simp
qed

text \<open>
  C2 as stated fails for counters beyond the signed range: with the video frame counter
  at \<open>2^31\<close> and no audio played the drift is \<open>2^31 > D\<close>, so the claim gives REPEAT,
  but the 32-bit signed drift is \<open>-2^31\<close> and the call returns SKIP.
\<close>

theorem AVSync_GetFrameDecision_counterexample:
  "sync_state sync_far = AVSYNC_STATE_RUNNING
   \<and> uint (max_drift_frames sync_far) < spec_drift sync_far
   \<and> decision_of (AVSync_GetFrameDecision sync_far) = Some AVSYNC_SKIP_FRAME"
  by (simp add: sync_far_def sync_started_fields spec_drift_def decision_of_def
      AVSync_GetFrameDecision_def Let_def)

lemma tick_mono:
  "unat (audio_samples_played sync) + unat n < 2^32 \<Longrightarrow>
   unat (audio_samples_played sync) \<le> unat (audio_samples_played (AVSync_AudioTick sync n))"
  by (auto simp: AVSync_AudioTick_def unat_word_ariths)

lemma tick_le:
  "unat (audio_samples_played (AVSync_AudioTick sync n)) \<le> unat (audio_samples_played sync) + unat n"
  by (auto simp: AVSync_AudioTick_def unat_word_ariths)

lemma decision_played:
  "AVSync_GetFrameDecision sync = Inr (d, sync') \<Longrightarrow>
   audio_samples_played sync' = audio_samples_played sync"
  by (auto simp: AVSync_GetFrameDecision_def Let_def split: if_splits)

lemma apply_non_tick:
  "AVSync_apply op sync = Inr sync' \<Longrightarrow> (\<forall>n. op \<noteq> Op_AudioTick n) \<Longrightarrow>
    audio_samples_played sync' = audio_samples_played sync
    \<or> (op = Op_Start \<and> audio_samples_played sync' = 0)"
  by (cases op) (auto simp: AVSync_FrameRendered_def AVSync_FrameSkipped_def AVSync_Start_def
      AVSync_Stop_def split: sum.splits dest: decision_played)

lemma run_mono:
  "Op_Start \<notin> set ops \<Longrightarrow> unat (audio_samples_played sync) + ticked ops < 2^32 \<Longrightarrow>
   AVSync_run ops sync = Inr sync' \<Longrightarrow>
   unat (audio_samples_played sync) \<le> unat (audio_samples_played sync')"
proof (induction ops arbitrary: sync)
  case Nil
  then show ?case by simp
next
  case (Cons op ops)
  from Cons.prems(3) obtain s1 where s1: "AVSync_apply op sync = Inr s1"
    and r: "AVSync_run ops s1 = Inr sync'"
    by (auto split: sum.splits)
  show ?case
  proof (cases "\<exists>n. op = Op_AudioTick n")
    case True
    then obtain n where op: "op = Op_AudioTick n" by blast
    with s1 have e: "s1 = AVSync_AudioTick sync n" by simp
    have a: "unat (audio_samples_played sync) \<le> unat (audio_samples_played s1)"
      using Cons.prems(2) op e tick_mono[of sync n] by simp
    have b: "unat (audio_samples_played s1) + ticked ops < 2^32"
      using Cons.prems(2) op e tick_le[of sync n] by simp
    have "unat (audio_samples_played s1) \<le> unat (audio_samples_played sync')"
      using Cons.IH[OF _ b r] Cons.prems(1) by simp
    with a show ?thesis by simp
  next
    case False
    then have nt: "\<forall>n. op \<noteq> Op_AudioTick n" by blast
    have ns: "op \<noteq> Op_Start" using Cons.prems(1) by auto
    from apply_non_tick[OF s1 nt] ns
    have e: "audio_samples_played s1 = audio_samples_played sync" by blast
    have t: "ticked (op # ops) = ticked ops" using nt by (cases op) auto
    have "unat (audio_samples_played s1) \<le> unat (audio_samples_played sync')"
      using Cons.IH[OF _ _ r] Cons.prems(1,2) e t by simp
    then show ?thesis using e by simp
  qed
qed

text \<open>
  C9, as amended.  Over any run of synchronizer operations that does not contain
  \<open>start\<close>, and whose ticks do not carry the 32-bit sample counter past \<open>2^32 - 1\<close>,
  \<open>audio_samples_played\<close> at the end is not below its value at the beginning.  An operation
  other than \<open>audio_tick\<close> never increases the counter (\<open>start\<close> on an initialised handle
  sets it to zero, the others keep it), and \<open>audio_tick\<close> in a state other than RUNNING
  leaves the handle as it is.
\<close>

theorem AVSync_samples_played_monotone:
  "(Op_Start \<notin> set ops \<and> unat (audio_samples_played sync) + ticked ops < 2^32
      \<and> AVSync_run ops sync = Inr sync' \<longrightarrow>
      unat (audio_samples_played sync) \<le> unat (audio_samples_played sync'))
   \<and> ((\<forall>n. op \<noteq> Op_AudioTick n) \<and> AVSync_apply op sync = Inr sync1 \<longrightarrow>
      unat (audio_samples_played sync1) \<le> unat (audio_samples_played sync))
   \<and> (sync_initialized sync \<longrightarrow> audio_samples_played (AVSync_Start sync) = 0)
   \<and> (sync_state sync \<noteq> AVSYNC_STATE_RUNNING \<longrightarrow> AVSync_AudioTick sync samples = sync)"
proof (intro conjI impI)
  assume "Op_Start \<notin> set ops \<and> unat (audio_samples_played sync) + ticked ops < 2^32
      \<and> AVSync_run ops sync = Inr sync'"
  then show "unat (audio_samples_played sync) \<le> unat (audio_samples_played sync')"
    using run_mono [of ops sync sync'] by blast
next
  assume "(\<forall>n. op \<noteq> Op_AudioTick n) \<and> AVSync_apply op sync = Inr sync1"
  then show "unat (audio_samples_played sync1) \<le> unat (audio_samples_played sync)"
    using apply_non_tick [of op sync sync1] by auto
next
  assume "sync_initialized sync"
  then show "audio_samples_played (AVSync_Start sync) = 0"
    by (simp add: AVSync_Start_def)
next
  assume "sync_state sync \<noteq> AVSYNC_STATE_RUNNING"
  then show "AVSync_AudioTick sync samples = sync"
    by (simp add: AVSync_AudioTick_def)
qed

theorem AVSync_samples_played_monotone_witness:
  "map_sum id audio_samples_played
     (AVSync_run [Op_AudioTick 2048, Op_GetFrameDecision, Op_FrameRendered, Op_AudioTick 2048,
                  Op_FrameSkipped, Op_Stop, Op_AudioTick 2048] sync_started) = Inr 4096
   \<and> unat (audio_samples_played sync_started) \<le> unat (4096 :: u32)
   \<and> unat (audio_samples_played (AVSync_Stop sync_started))
       \<le> unat (audio_samples_played sync_started)
   \<and> audio_samples_played (AVSync_Start sync_started) = 0
   \<and> AVSync_AudioTick sync_ready 2048 = sync_ready"
proof -
  let ?ops = "[Op_AudioTick 2048, Op_GetFrameDecision, Op_FrameRendered, Op_AudioTick 2048,
               Op_FrameSkipped, Op_Stop, Op_AudioTick 2048]"
  have "\<exists>s. AVSync_run ?ops sync_started = Inr s \<and> audio_samples_played s = 4096"
    by (simp add: sync_started_fields AVSync_AudioTick_def AVSync_GetFrameDecision_def Let_def
        AVSync_FrameRendered_def AVSync_FrameSkipped_def AVSync_Stop_def)
  then obtain s where r: "AVSync_run ?ops sync_started = Inr s"
    and p: "audio_samples_played s = 4096"
    by blast
  have h1: "Op_Start \<notin> set ?ops
      \<and> unat (audio_samples_played sync_started) + ticked ?ops < 2^32
      \<and> AVSync_run ?ops sync_started = Inr s"
    using r by (simp add: sync_started_fields)
  have h2: "(\<forall>n. Op_Stop \<noteq> Op_AudioTick n)
      \<and> AVSync_apply Op_Stop sync_started = Inr (AVSync_Stop sync_started)"
    by simp
  have h3: "sync_state sync_ready \<noteq> AVSYNC_STATE_RUNNING"
    by (simp add: sync_ready_def AVSync_Init_def AVSync_Handle_zero_def)
  from AVSync_samples_played_monotone
    [of ?ops sync_started s Op_Stop "AVSync_Stop sync_started" 2048] h1 h2
  have a: "unat (audio_samples_played sync_started) \<le> unat (audio_samples_played s)"
    and b: "unat (audio_samples_played (AVSync_Stop sync_started))
       \<le> unat (audio_samples_played sync_started)"
    and c: "audio_samples_played (AVSync_Start sync_started) = 0"
    using sync_started_fields(6) by blast+
  from AVSync_samples_played_monotone [of "[]" sync_ready sync_ready Op_Stop sync_ready 2048] h3
  have d: "AVSync_AudioTick sync_ready 2048 = sync_ready"
    by blast
  have e: "map_sum id audio_samples_played (AVSync_run ?ops sync_started) = Inr 4096"
    using r p by simp
  from a p have a': "unat (audio_samples_played sync_started) \<le> unat (4096 :: u32)"
    by simp
  from e a' b c d show ?thesis by blast
qed

text \<open>
  C9 as stated fails in two ways.  \<open>start\<close> applied to a running synchronizer that has
  played 2048 samples leaves it running with the counter at zero; and a tick of 2048
  samples on a running synchronizer whose counter stands at \<open>2^32 - 2048\<close> wraps the
  counter to zero.
\<close>

theorem AVSync_samples_played_counterexample:
  "sync_state (AVSync_AudioTick sync_started 2048) = AVSYNC_STATE_RUNNING
   \<and> audio_samples_played (AVSync_AudioTick sync_started 2048) = 2048
   \<and> map_sum id sync_state (AVSync_run [Op_Start] (AVSync_AudioTick sync_started 2048))
       = Inr AVSYNC_STATE_RUNNING
   \<and> map_sum id audio_samples_played (AVSync_run [Op_Start] (AVSync_AudioTick sync_started 2048))
       = Inr 0
   \<and> sync_state sync_late = AVSYNC_STATE_RUNNING
   \<and> audio_samples_played sync_late = 0xFFFFF800
   \<and> map_sum id sync_state (AVSync_run [Op_AudioTick 2048] sync_late) = Inr AVSYNC_STATE_RUNNING
   \<and> map_sum id audio_samples_played (AVSync_run [Op_AudioTick 2048] sync_late) = Inr 0"
  by (simp add: sync_late_def sync_started_fields AVSync_AudioTick_def AVSync_Start_def)

section \<open>Properties of the display buffers\<close>

lemma Display_apply_indices:
  "distinct [render s, ready s, transfer s] \<and> {render s, ready s, transfer s} = {0, 1, 2} \<Longrightarrow>
   distinct [render (Display_apply op s), ready (Display_apply op s),
             transfer (Display_apply op s)]
   \<and> {render (Display_apply op s), ready (Display_apply op s), transfer (Display_apply op s)}
       = {0, 1, 2}"
  by (cases op)
    (auto simp: Display_SwapBuffers_def Display_StartTransfer_def Display_TransferComplete_def
      Let_def)

lemma Display_run_indices:
  "distinct [render s, ready s, transfer s] \<and> {render s, ready s, transfer s} = {0, 1, 2} \<Longrightarrow>
   distinct [render (Display_run ops s), ready (Display_run ops s),
             transfer (Display_run ops s)]
   \<and> {render (Display_run ops s), ready (Display_run ops s), transfer (Display_run ops s)}
       = {0, 1, 2}"
proof (induction ops arbitrary: s)
  case Nil
  then show ?case by simp
next
  case (Cons op ops)
  from Cons.prems have "distinct [render (Display_apply op s), ready (Display_apply op s),
             transfer (Display_apply op s)]
   \<and> {render (Display_apply op s), ready (Display_apply op s), transfer (Display_apply op s)}
       = {0, 1, 2}"
    by (rule Display_apply_indices)
  then show ?case using Cons.IH [of "Display_apply op s"] by simp
qed

text \<open>
  C4.  From the initial display-buffer state (render 0, ready 2, transfer 1), after any
  sequence of \<open>swap_buffers\<close>, \<open>start_transfer\<close> and \<open>transfer_complete\<close> the indices
  render, ready and transfer are pairwise distinct and together are 0, 1 and 2.
\<close>

theorem Display_indices_permutation:
  "distinct [render (Display_run ops g_display_buffers), ready (Display_run ops g_display_buffers),
             transfer (Display_run ops g_display_buffers)]
   \<and> {render (Display_run ops g_display_buffers), ready (Display_run ops g_display_buffers),
       transfer (Display_run ops g_display_buffers)} = {0, 1, 2}"
  by (rule Display_run_indices) (auto simp: g_display_buffers_def)

section \<open>Properties of the audio pipeline\<close>

text \<open>
  C1 asks the DMA interrupt handler to count an underrun when \<open>needs_refill\<close> is still set
  as the interrupt fires.  The handler does not: on the initialised handle
  \<open>audio_pending\<close>, where the flag is set and no underrun has been counted, the
  half-complete interrupt leaves \<open>underrun_count\<close> at zero.
\<close>

theorem audio_HandleDMA_underrun_not_counted:
  "audio_initialized audio_pending \<and> needs_refill audio_pending
   \<and> underrun_count (audio_stats audio_pending) = 0
   \<and> underrun_count (audio_stats (fst (audio_HandleDMA audio_pending sync_started True))) = 0
   \<and> underrun_count (audio_stats (fst (audio_HandleDMA audio_pending sync_started False))) = 0"
  by (simp add: audio_pending_def audio_HandleDMA_def Let_def)

section \<open>Properties of the file name conversion\<close>

lemma FAT_ConvertFilename_name_dom:
  "FAT_ConvertFilename_name input outp i oi = (out', i', o') \<Longrightarrow> dom outp = {0..<11}
   \<Longrightarrow> dom out' = {0..<11}"
proof (induction input outp i oi rule: FAT_ConvertFilename_name.induct)
  case (1 input outp i oi)
  show ?case
  proof (cases "cstr_at input i \<noteq> CHR 0x00 \<and> cstr_at input i \<noteq> CHR ''.'' \<and> oi < 8")
    case True
    have d: "dom (outp(oi \<mapsto> toupper (cstr_at input i))) = {0..<11}"
      using True "1.prems"(2) by auto
    from True "1.prems"(1)
    have "FAT_ConvertFilename_name input (outp(oi \<mapsto> toupper (cstr_at input i))) (i + 1) (oi + 1)
          = (out', i', o')"
      by (subst (asm) FAT_ConvertFilename_name.simps) simp
    from "1.IH" [OF True this d] show ?thesis .
  next
    case False
    with "1.prems" show ?thesis by (subst (asm) FAT_ConvertFilename_name.simps) auto
  qed
qed

lemma FAT_ConvertFilename_ext_dom:
  "FAT_ConvertFilename_ext input outp i oi = (out', i', o') \<Longrightarrow> dom outp = {0..<11}
   \<Longrightarrow> dom out' = {0..<11}"
proof (induction input outp i oi rule: FAT_ConvertFilename_ext.induct)
  case (1 input outp i oi)
  show ?case
  proof (cases "cstr_at input i \<noteq> CHR 0x00 \<and> oi < 11")
    case True
    have d: "dom (outp(oi \<mapsto> toupper (cstr_at input i))) = {0..<11}"
      using True "1.prems"(2) by auto
    from True "1.prems"(1)
    have "FAT_ConvertFilename_ext input (outp(oi \<mapsto> toupper (cstr_at input i))) (i + 1) (oi + 1)
          = (out', i', o')"
      by (subst (asm) FAT_ConvertFilename_ext.simps) simp
    from "1.IH" [OF True this d] show ?thesis .
  next
    case False
    with "1.prems" show ?thesis by (subst (asm) FAT_ConvertFilename_ext.simps) auto
  qed
qed

lemma FAT_ConvertFilename_dom: "dom (FAT_ConvertFilename input) = {0..<11}"
proof -
  let ?out0 = "(\<lambda>k. if k < FAT_MAX_FILENAME then Some CHR '' '' else None)"
  have d0: "dom ?out0 = {0..<11}"
    by (auto simp: FAT_MAX_FILENAME_def dom_def)
  obtain out1 i1 o1 where c1: "FAT_ConvertFilename_name input ?out0 0 0 = (out1, i1, o1)"
    by (cases "FAT_ConvertFilename_name input ?out0 0 0") auto
  let ?i2 = "FAT_ConvertFilename_skip input i1"
  let ?i3 = "if cstr_at input ?i2 = CHR ''.'' then ?i2 + 1 else ?i2"
  obtain out2 i4 o2 where c2: "FAT_ConvertFilename_ext input out1 ?i3 8 = (out2, i4, o2)"
    by (cases "FAT_ConvertFilename_ext input out1 ?i3 8") auto
  have "dom out1 = {0..<11}" using FAT_ConvertFilename_name_dom [OF c1 d0] .
  then have "dom out2 = {0..<11}" using FAT_ConvertFilename_ext_dom [OF c2] by simp
  moreover have "FAT_ConvertFilename input = out2"
    using c1 c2 by (simp add: FAT_ConvertFilename_def Let_def)
  ultimately show ?thesis by simp
qed

lemma FAT_ConvertFilename_name_canonical:
  assumes "\<forall>k<8. cstr_at input k \<noteq> CHR 0x00 \<and> cstr_at input k \<noteq> CHR ''.''"
  shows "oi \<le> 8 \<Longrightarrow> FAT_ConvertFilename_name input outp oi oi =
     (\<lambda>k. if oi \<le> k \<and> k < 8 then Some (toupper (cstr_at input k)) else outp k, 8, 8)"
proof (induction "8 - oi" arbitrary: oi outp)
  case 0
  then have "oi = 8" by simp
  then show ?case by (subst FAT_ConvertFilename_name.simps) (auto simp: fun_eq_iff)
next
  case (Suc n)
  then have lt: "oi < 8" by simp
  with assms have g: "cstr_at input oi \<noteq> CHR 0x00 \<and> cstr_at input oi \<noteq> CHR ''.'' \<and> oi < 8"
    by simp
  have n: "n = 8 - (oi + 1)" using Suc.hyps(2) by simp
  have le: "oi + 1 \<le> 8" using lt by simp
  have "FAT_ConvertFilename_name input outp oi oi
        = FAT_ConvertFilename_name input (outp(oi \<mapsto> toupper (cstr_at input oi))) (oi + 1) (oi + 1)"
    using g by (subst FAT_ConvertFilename_name.simps) simp
  also have "\<dots> = (\<lambda>k. if oi + 1 \<le> k \<and> k < 8 then Some (toupper (cstr_at input k))
                        else (outp(oi \<mapsto> toupper (cstr_at input oi))) k, 8, 8)"
    by (rule Suc.hyps(1) [OF n le])
  also have "\<dots> = (\<lambda>k. if oi \<le> k \<and> k < 8 then Some (toupper (cstr_at input k)) else outp k, 8, 8)"
    using lt by (auto simp: fun_eq_iff)
  finally show ?case .
qed

lemma FAT_ConvertFilename_skip_canonical:
  assumes "\<forall>k<length input. input ! k \<noteq> CHR 0x00 \<and> input ! k \<noteq> CHR ''.''"
  shows "i \<le> length input \<Longrightarrow> FAT_ConvertFilename_skip input i = length input"
proof (induction "length input - i" arbitrary: i)
  case 0
  then have "i = length input" by simp
  then show ?case by (subst FAT_ConvertFilename_skip.simps) (simp add: cstr_at_def)
next
  case (Suc n)
  then have lt: "i < length input" by simp
  with assms have g: "cstr_at input i \<noteq> CHR 0x00 \<and> cstr_at input i \<noteq> CHR ''.''"
    by (simp add: cstr_at_def)
  have "FAT_ConvertFilename_skip input i = FAT_ConvertFilename_skip input (i + 1)"
    using g by (subst FAT_ConvertFilename_skip.simps) simp
  also have "\<dots> = length input"
    using Suc.hyps(2) lt by (intro Suc.hyps(1)) auto
  finally show ?case .
qed

lemma FAT_ConvertFilename_canonical:
  assumes "canonical_83 name"
  shows "written (FAT_ConvertFilename name) = take 8 name @ ''   ''"
proof -
  from assms have len: "length name = 11"
    and ok: "\<forall>k<length name. name ! k \<noteq> CHR 0x00 \<and> name ! k \<noteq> CHR ''.''
                \<and> toupper (name ! k) = name ! k"
    by (auto simp: canonical_83_def list_all_length)
  let ?out0 = "(\<lambda>k. if k < FAT_MAX_FILENAME then Some CHR '' '' else None)"
  let ?out1 = "\<lambda>k. if k < 8 then Some (toupper (cstr_at name k)) else ?out0 k"
  have a: "\<forall>k<8. cstr_at name k \<noteq> CHR 0x00 \<and> cstr_at name k \<noteq> CHR ''.''"
    using len ok by (simp add: cstr_at_def)
  have c1: "FAT_ConvertFilename_name name ?out0 0 0 = (?out1, 8, 8)"
    using FAT_ConvertFilename_name_canonical [OF a, of 0 ?out0] by simp
  have s: "FAT_ConvertFilename_skip name 8 = 11"
    using FAT_ConvertFilename_skip_canonical [of name 8] ok len by simp
  have e: "cstr_at name 11 = CHR 0x00" using len by (simp add: cstr_at_def)
  have c2: "FAT_ConvertFilename_ext name ?out1 11 8 = (?out1, 11, 8)"
    using e by (subst FAT_ConvertFilename_ext.simps) simp
  have r: "FAT_ConvertFilename name = ?out1"
    by (simp add: FAT_ConvertFilename_def Let_def c1 s e c2)
  have "\<And>k. k < 8 \<Longrightarrow> toupper (cstr_at name k) = name ! k"
    using ok len by (simp add: cstr_at_def)
  then have w: "written ?out1 = map (\<lambda>k. if k < 8 then name ! k else CHR '' '') [0..<11]"
    by (simp add: written_def FAT_MAX_FILENAME_def)
  have "map (\<lambda>k. if k < 8 then name ! k else CHR '' '') [0..<11] = take 8 name @ ''   ''"
    using len by (intro nth_equalityI) (auto simp: nth_append less_Suc_eq numeral_eq_Suc)
  with r w show ?thesis by simp
qed

text \<open>
  C5, as amended.  \<open>FAT_ConvertFilename\<close> writes the output bytes 0 to 10 and no other.
  On a canonical 8.3 input (eleven bytes, upper case, no dot) the result is the eight
  name bytes of the input followed by three spaces; so the conversion returns a
  canonical input unchanged when the extension field of the input is blank.
\<close>

theorem FAT_ConvertFilename_canonical_input:
  "dom (FAT_ConvertFilename input) = {0..<11}
   \<and> (canonical_83 name \<longrightarrow> written (FAT_ConvertFilename name) = take 8 name @ ''   '')
   \<and> (canonical_83 name \<and> drop 8 name = ''   '' \<longrightarrow> written (FAT_ConvertFilename name) = name)"
proof (intro conjI impI)
  show "dom (FAT_ConvertFilename input) = {0..<11}" by (rule FAT_ConvertFilename_dom)
next
  assume "canonical_83 name"
  then show "written (FAT_ConvertFilename name) = take 8 name @ ''   ''"
    by (rule FAT_ConvertFilename_canonical)
next
  assume a: "canonical_83 name \<and> drop 8 name = ''   ''"
  then have "written (FAT_ConvertFilename name) = take 8 name @ drop 8 name"
    using FAT_ConvertFilename_canonical [of name] by simp
  then show "written (FAT_ConvertFilename name) = name" by simp
qed

theorem FAT_ConvertFilename_canonical_input_witness:
  "written (FAT_ConvertFilename ''README     '') = ''README     ''
   \<and> written (FAT_ConvertFilename ''TEST    TXT'') = ''TEST       ''"
proof -
  have c: "canonical_83 ''README     '' \<and> drop 8 ''README     '' = ''   ''"
    by (simp add: canonical_83_def toupper_def)
  have d: "canonical_83 ''TEST    TXT''"
    by (simp add: canonical_83_def toupper_def)
  from FAT_ConvertFilename_canonical_input [of "[]" "''README     ''"] c
  have a: "written (FAT_ConvertFilename ''README     '') = ''README     ''"
    by blast
  from FAT_ConvertFilename_canonical_input [of "[]" "''TEST    TXT''"] d
  have "written (FAT_ConvertFilename ''TEST    TXT'') = take 8 ''TEST    TXT'' @ ''   ''"
    by blast
  with a show ?thesis by simp
qed

text \<open>
  C5 as stated fails for a canonical name with an extension: the name loop takes the
  first eight bytes, the skip loop runs over the extension to the terminator, and the
  extension loop finds nothing to copy.
\<close>

theorem FAT_ConvertFilename_counterexample:
  "canonical_83 ''BADAPPLEBIN''
   \<and> written (FAT_ConvertFilename ''BADAPPLEBIN'') = ''BADAPPLE   ''
   \<and> written (FAT_ConvertFilename ''BADAPPLEBIN'') \<noteq> ''BADAPPLEBIN''"
  by code_simp

section \<open>Properties of the sample conversion\<close>

lemma int32_id: "- (2^31) \<le> k \<Longrightarrow> k < 2^31 \<Longrightarrow> int32 k = k"
  unfolding int32_def by (rule signed_take_bit_int_eq_self)

lemma scaled_bounds:
  assumes "- 32768 \<le> x" "x \<le> 32767" "0 \<le> v" "v \<le> (100::int)"
  shows "- 32768 \<le> (x * v) sdiv 100 \<and> (x * v) sdiv 100 \<le> 32767"
proof (cases "0 \<le> x")
  case True
  then have nn: "0 \<le> x * v" using assms(3) by simp
  have "x * v \<le> 32767 * 100" using assms True by (intro mult_mono) auto
  then have "(x * v) div 100 \<le> 32767" by simp
  moreover have "0 \<le> (x * v) div 100" using nn by simp
  moreover have "(x * v) sdiv 100 = (x * v) div 100"
    using nn by (cases "x * v = 0") (auto simp: signed_divide_int_def sgn_if)
  ultimately show ?thesis by simp
next
  case False
  then have np: "x * v \<le> 0" using assms(3) by (simp add: mult_le_0_iff)
  have "(- x) * v \<le> 32768 * 100" using assms False by (intro mult_mono) auto
  then have le: "\<bar>x * v\<bar> \<le> 3276800" using np by simp
  then have "\<bar>x * v\<bar> div 100 \<le> 32768" by simp
  moreover have "0 \<le> \<bar>x * v\<bar> div 100" by simp
  moreover have "(x * v) sdiv 100 = - (\<bar>x * v\<bar> div 100)"
    using np by (cases "x * v = 0") (auto simp: signed_divide_int_def sgn_if)
  ultimately show ?thesis by simp
qed

lemma prod_bounds:
  assumes "- 32768 \<le> x" "x \<le> 32767" "0 \<le> v" "v \<le> (100::int)"
  shows "- 3276800 \<le> x * v \<and> x * v \<le> 3276700"
proof (cases "0 \<le> x")
  case True
  have "x * v \<le> 32767 * 100" using assms True by (intro mult_mono) auto
  moreover have "0 \<le> x * v" using True assms(3) by simp
  ultimately show ?thesis by simp
next
  case False
  have "(- x) * v \<le> 32768 * 100" using assms False by (intro mult_mono) auto
  moreover have "x * v \<le> 0" using False assms(3) by (simp add: mult_le_0_iff)
  ultimately show ?thesis by simp
qed

lemma pcm_to_dac_value:
  assumes "uint volume \<le> 100"
  shows "uint (pcm_to_dac raw volume) = ((sint raw * uint volume) sdiv 100 + 32768) div 16
     \<and> 0 \<le> (sint raw * uint volume) sdiv 100 + 32768
     \<and> (sint raw * uint volume) sdiv 100 + 32768 \<le> 65535"
proof -
  let ?x = "sint raw" and ?v = "uint volume"
  have x: "- 32768 \<le> ?x" "?x \<le> 32767"
    using sint_ge [of raw] sint_lt [of raw] by simp_all
  have v: "0 \<le> ?v" by simp
  from prod_bounds [OF x v assms] have p: "int32 (?x * ?v) = ?x * ?v"
    by (intro int32_id) auto
  from scaled_bounds [OF x v assms]
  have s: "- 32768 \<le> (?x * ?v) sdiv 100" "(?x * ?v) sdiv 100 \<le> 32767" by auto
  then have s1: "int32 ((?x * ?v) sdiv 100) = (?x * ?v) sdiv 100"
    by (intro int32_id) auto
  from s have s2: "int32 ((?x * ?v) sdiv 100 + 32768) = (?x * ?v) sdiv 100 + 32768"
    by (intro int32_id) auto
  let ?y = "(?x * ?v) sdiv 100 + 32768"
  have y: "0 \<le> ?y" "?y \<le> 65535" using s by auto
  then have d: "0 \<le> ?y div 16" "?y div 16 < 65536" by auto
  have "uint (pcm_to_dac raw volume) = uint (word_of_int (?y div 16) :: u16)"
    by (simp add: pcm_to_dac_def Let_def p s1 s2 drop_bit_eq_div)
  also have "\<dots> = ?y div 16"
    using d by (simp add: uint_word_of_int take_bit_int_eq_self)
  finally show ?thesis using y by simp
qed

text \<open>
  C7.  For every signed 16-bit sample and every volume from 0 to 100 the conversion
  \<open>((s * v) / 100 + 32768) >> 4\<close> of \<open>Media_ReadAudioStereo\<close> gives a value from 0 to
  4095, and it maps the sample 0 at volume 100 to \<open>0x800\<close>.
\<close>

theorem pcm_to_dac_range:
  "(uint volume \<le> 100 \<longrightarrow> uint (pcm_to_dac raw volume) \<le> 4095) \<and> pcm_to_dac 0 100 = 0x800"
proof (intro conjI impI)
  assume "uint volume \<le> 100"
  then show "uint (pcm_to_dac raw volume) \<le> 4095"
    using pcm_to_dac_value [of volume raw] by auto
next
  show "pcm_to_dac 0 100 = 0x800"
    by (simp add: pcm_to_dac_def int32_def)
qed

theorem pcm_to_dac_range_witness:
  "uint (pcm_to_dac 32767 100) \<le> 4095 \<and> pcm_to_dac 32767 100 = 4095
   \<and> pcm_to_dac (- 32768) 100 = 0"
proof -
  have "uint (100 :: u8) \<le> 100" by simp
  with pcm_to_dac_range [of 100 32767] have "uint (pcm_to_dac 32767 100) \<le> 4095"
    by blast
  moreover have "pcm_to_dac 32767 100 = 4095" "pcm_to_dac (- 32768) 100 = 0"
    by (simp_all add: pcm_to_dac_def int32_def signed_divide_int_def)
  ultimately show ?thesis by simp
qed

section \<open>Properties of the media reader\<close>

lemma Media_silence_loop_eq:
  "Media_silence_loop (left, right) i n =
     (\<lambda>k. if i \<le> k \<and> k < i + n then DAC_SILENCE else left k,
      \<lambda>k. if i \<le> k \<and> k < i + n then DAC_SILENCE else right k)"
proof (induction n arbitrary: left right i)
  case 0
  show ?case by (auto simp: fun_eq_iff)
next
  case (Suc n)
  show ?case by (simp add: Suc.IH) (auto simp: fun_eq_iff)
qed

lemma count_clamp: "unat (if MAX_AUDIO_READ_SAMPLES < count then MAX_AUDIO_READ_SAMPLES else count)
    = min (unat count) 2048"
  by (auto simp: MAX_AUDIO_READ_SAMPLES_def AUDIO_BUFFER_SAMPLES_def word_less_nat_alt)

text \<open>
  C8, as amended.  On an open media file with \<open>current_sample \<ge> audio_size / 4\<close>,
  \<open>read_audio\<close> returns OK, writes DAC silence \<open>0x800\<close> to the first
  \<open>min(count, 2048)\<close> entries of the left and of the right buffer and to no other entry,
  and leaves the handle as it is: \<open>current_sample\<close> keeps its value and no command goes
  to the block device.  The static sample buffer is not touched either.
\<close>

theorem Media_ReadAudioStereo_past_end:
  "is_open media \<and> audio_size media div 4 \<le> current_sample media \<longrightarrow>
     Media_ReadAudioStereo media s_audio_buffer left right count =
       Some (FAT_OK, media, s_audio_buffer,
             \<lambda>k. if k < min (unat count) 2048 then 0x800 else left k,
             \<lambda>k. if k < min (unat count) 2048 then 0x800 else right k)"
  unfolding Media_ReadAudioStereo_def Let_def Media_silence_loop_eq count_clamp DAC_SILENCE_def
  by simp

theorem Media_ReadAudioStereo_past_end_witness:
  "audio_status (Media_ReadAudioStereo media_eof (\<lambda>k. 0) (\<lambda>k. 0) (\<lambda>k. 0) 2048) = Some FAT_OK
   \<and> audio_left (Media_ReadAudioStereo media_eof (\<lambda>k. 0) (\<lambda>k. 0) (\<lambda>k. 0) 2048) 0 = Some 0x800
   \<and> audio_right (Media_ReadAudioStereo media_eof (\<lambda>k. 0) (\<lambda>k. 0) (\<lambda>k. 0) 2048) 2047 = Some 0x800
   \<and> map_option (fst \<circ> snd) (Media_ReadAudioStereo media_eof (\<lambda>k. 0) (\<lambda>k. 0) (\<lambda>k. 0) 2048)
       = Some media_eof"
proof -
  have h: "is_open media_eof \<and> audio_size media_eof div 4 \<le> current_sample media_eof"
    by (simp add: media_eof_def media_example_def)
  from Media_ReadAudioStereo_past_end [of media_eof "\<lambda>k. 0" "\<lambda>k. 0" "\<lambda>k. 0" 2048] h
  have "Media_ReadAudioStereo media_eof (\<lambda>k. 0) (\<lambda>k. 0) (\<lambda>k. 0) 2048 =
       Some (FAT_OK, media_eof, \<lambda>k. 0,
             \<lambda>k. if k < min (unat (2048 :: u32)) 2048 then 0x800 else 0,
             \<lambda>k. if k < min (unat (2048 :: u32)) 2048 then 0x800 else 0)"
    by blast
  then show ?thesis by (simp add: audio_status_def audio_left_def audio_right_def)
qed

text \<open>
  C8 as stated fails for a request of more than 2048 samples: the function clamps
  \<open>count\<close> to the size of its static buffer, so of 2049 entries asked for the last one
  keeps its old value.
\<close>

theorem Media_ReadAudioStereo_past_end_counterexample:
  "is_open media_eof \<and> audio_size media_eof div 4 \<le> current_sample media_eof
   \<and> audio_status (Media_ReadAudioStereo media_eof (\<lambda>k. 0) (\<lambda>k. 0) (\<lambda>k. 0) 2049) = Some FAT_OK
   \<and> audio_left (Media_ReadAudioStereo media_eof (\<lambda>k. 0) (\<lambda>k. 0) (\<lambda>k. 0) 2049) 2047 = Some 0x800
   \<and> audio_left (Media_ReadAudioStereo media_eof (\<lambda>k. 0) (\<lambda>k. 0) (\<lambda>k. 0) 2049) 2048 = Some 0
   \<and> audio_right (Media_ReadAudioStereo media_eof (\<lambda>k. 0) (\<lambda>k. 0) (\<lambda>k. 0) 2049) 2048 = Some 0"
  unfolding Media_ReadAudioStereo_def Let_def Media_silence_loop_eq count_clamp DAC_SILENCE_def
  by (simp add: media_eof_def media_example_def audio_status_def audio_left_def audio_right_def)

lemma Media_Open_cases:
  "Media_Open media vol_ptr file_info_ptr = (status, media') \<Longrightarrow>
     (status = FAT_ERROR_INVALID_PARAM \<and> media' = media)
     \<or> (status = FAT_ERROR_READ \<and> \<not> is_open media')
     \<or> status = FAT_OK"
  by (auto simp: Media_Open_def Let_def MediaFile_zero_def
      split: option.splits if_splits prod.splits)

text \<open>
  C10, as amended.  \<open>Media_Open\<close> returns OK, READ or INVALID\_PARAM.  When it fails with
  READ (the block device did not deliver the header sector) the handle is left with
  \<open>is_open = false\<close>.  When it fails with INVALID\_PARAM (a \<open>NULL\<close> volume or file info, or
  an unmounted volume) the handle is left untouched, so \<open>is_open\<close> is false afterwards
  when it was false before, as it is on a zero-initialised handle.  On a handle with
  \<open>is_open = false\<close>, \<open>Media_ReadFrameAt\<close> and \<open>Media_ReadAudioStereo\<close> return
  INVALID\_PARAM and leave the handle, and with it the block device, and the buffers as
  they are.
\<close>

theorem Media_Open_failure:
  "(fst (Media_Open media vol_ptr file_info_ptr) = FAT_OK
      \<or> fst (Media_Open media vol_ptr file_info_ptr) = FAT_ERROR_READ
      \<or> fst (Media_Open media vol_ptr file_info_ptr) = FAT_ERROR_INVALID_PARAM)
   \<and> (fst (Media_Open media vol_ptr file_info_ptr) = FAT_ERROR_READ \<longrightarrow>
        \<not> is_open (snd (Media_Open media vol_ptr file_info_ptr)))
   \<and> (fst (Media_Open media vol_ptr file_info_ptr) = FAT_ERROR_INVALID_PARAM \<longrightarrow>
        snd (Media_Open media vol_ptr file_info_ptr) = media)
   \<and> (vol_ptr = None \<or> file_info_ptr = None \<or> map_option mounted vol_ptr = Some False \<longrightarrow>
        Media_Open media vol_ptr file_info_ptr = (FAT_ERROR_INVALID_PARAM, media))
   \<and> (\<not> is_open media \<longrightarrow>
        Media_ReadFrameAt media frame_number buffer
          = Some (FAT_ERROR_INVALID_PARAM, media, buffer)
        \<and> Media_ReadAudioStereo media s_audio_buffer left right count
          = Some (FAT_ERROR_INVALID_PARAM, media, s_audio_buffer, left, right))"
proof -
  obtain status media' where o: "Media_Open media vol_ptr file_info_ptr = (status, media')"
    by (cases "Media_Open media vol_ptr file_info_ptr") auto
  from Media_Open_cases [OF o]
  have a: "(status = FAT_OK \<or> status = FAT_ERROR_READ \<or> status = FAT_ERROR_INVALID_PARAM)
     \<and> (status = FAT_ERROR_READ \<longrightarrow> \<not> is_open media')
     \<and> (status = FAT_ERROR_INVALID_PARAM \<longrightarrow> media' = media)"
    by auto
  have b: "vol_ptr = None \<or> file_info_ptr = None \<or> map_option mounted vol_ptr = Some False \<longrightarrow>
        Media_Open media vol_ptr file_info_ptr = (FAT_ERROR_INVALID_PARAM, media)"
    by (auto simp: Media_Open_def split: option.splits)
  have c: "\<not> is_open media \<longrightarrow>
        Media_ReadFrameAt media frame_number buffer
          = Some (FAT_ERROR_INVALID_PARAM, media, buffer)
        \<and> Media_ReadAudioStereo media s_audio_buffer left right count
          = Some (FAT_ERROR_INVALID_PARAM, media, s_audio_buffer, left, right)"
    by (simp add: Media_ReadFrameAt_def Media_ReadAudioStereo_def)
  from a b c o show ?thesis by simp
qed


theorem Media_Open_failure_witness:
  "Media_Open MediaFile_zero None (Some example_file_info)
     = (FAT_ERROR_INVALID_PARAM, MediaFile_zero)
   \<and> fst (Media_Open MediaFile_zero (Some dead_volume) (Some example_file_info)) = FAT_ERROR_READ
   \<and> \<not> is_open (snd (Media_Open MediaFile_zero (Some dead_volume) (Some example_file_info)))
   \<and> Media_ReadFrameAt MediaFile_zero 0 (\<lambda>k. 0)
       = Some (FAT_ERROR_INVALID_PARAM, MediaFile_zero, \<lambda>k. 0)
   \<and> audio_status (Media_ReadAudioStereo
         (snd (Media_Open MediaFile_zero (Some dead_volume) (Some example_file_info)))
         (\<lambda>k. 0) (\<lambda>k. 0) (\<lambda>k. 0) 2048) = Some FAT_ERROR_INVALID_PARAM"
proof -
  let ?f = "Some example_file_info"
  let ?m = "snd (Media_Open MediaFile_zero (Some dead_volume) ?f)"
  have r: "fst (Media_Open MediaFile_zero (Some dead_volume) ?f) = FAT_ERROR_READ"
    by (simp add: Media_Open_def dead_volume_def example_volume_def SD_ReadBlock_def
        SD_ReadBlockData_def Let_def
        FAT_ClusterToSector_def example_file_info_def)
  have z: "\<not> is_open MediaFile_zero" by (simp add: MediaFile_zero_def)
  from Media_Open_failure [of MediaFile_zero None ?f 0 "\<lambda>k. 0" "\<lambda>k. 0" "\<lambda>k. 0" "\<lambda>k. 0" 2048] z
  have a: "Media_Open MediaFile_zero None ?f = (FAT_ERROR_INVALID_PARAM, MediaFile_zero)"
    and b: "Media_ReadFrameAt MediaFile_zero 0 (\<lambda>k. 0)
       = Some (FAT_ERROR_INVALID_PARAM, MediaFile_zero, \<lambda>k. 0)"
    by blast+
  from Media_Open_failure [of MediaFile_zero "Some dead_volume" ?f 0 "\<lambda>k. 0" "\<lambda>k. 0" "\<lambda>k. 0"
      "\<lambda>k. 0" 2048] r
  have c: "\<not> is_open ?m" by blast
  from Media_Open_failure [of ?m None None 0 "\<lambda>k. 0" "\<lambda>k. 0" "\<lambda>k. 0" "\<lambda>k. 0" 2048] c
  have "Media_ReadAudioStereo ?m (\<lambda>k. 0) (\<lambda>k. 0) (\<lambda>k. 0) 2048
          = Some (FAT_ERROR_INVALID_PARAM, ?m, \<lambda>k. 0, \<lambda>k. 0, \<lambda>k. 0)"
    by blast
  then have d: "audio_status (Media_ReadAudioStereo ?m (\<lambda>k. 0) (\<lambda>k. 0) (\<lambda>k. 0) 2048)
      = Some FAT_ERROR_INVALID_PARAM"
    by (simp add: audio_status_def)
  from a r c b d show ?thesis by blast
qed

text \<open>
  C10 as stated fails when \<open>Media_Open\<close> is given an open handle and invalid parameters:
  it returns INVALID\_PARAM before it touches the handle, which stays open, and a later
  \<open>Media_ReadAudioStereo\<close> on it is served (here with OK, at the end of the audio).
\<close>

theorem Media_Open_failure_counterexample:
  "is_open media_eof
   \<and> Media_Open media_eof None None = (FAT_ERROR_INVALID_PARAM, media_eof)
   \<and> is_open (snd (Media_Open media_eof None None))
   \<and> audio_status (Media_ReadAudioStereo (snd (Media_Open media_eof None None))
         (\<lambda>k. 0) (\<lambda>k. 0) (\<lambda>k. 0) 4) = Some FAT_OK"
  unfolding Media_ReadAudioStereo_def Let_def Media_silence_loop_eq count_clamp DAC_SILENCE_def
  by (simp add: Media_Open_def media_eof_def media_example_def audio_status_def)

section \<open>Properties of the contiguity check\<close>















section \<open>Properties of the contiguous read\<close>
















lemma sd_addr_log [simp]: "sd_addr (h\<lparr>io_log := l\<rparr>) s = sd_addr h s"
  by (simp add: sd_addr_def)

lemma delivers_log [simp]: "delivers (h\<lparr>io_log := l\<rparr>) s = delivers h s"
  by (simp add: delivers_def)

lemma card_block_log [simp]: "card_block (h\<lparr>io_log := l\<rparr>) s = card_block h s"
  by (simp add: card_block_def)

lemma blocks_arrive_log [simp]: "blocks_arrive (h\<lparr>io_log := l\<rparr>) s n = blocks_arrive h s n"
  by (induction n arbitrary: s) simp_all

lemma read_succeeds_log [simp]: "read_succeeds (h\<lparr>io_log := l\<rparr>) s n = read_succeeds h s n"
  by (simp add: read_succeeds_def)

lemma blocks_into_log [simp]: "blocks_into (h\<lparr>io_log := l\<rparr>) s b p n = blocks_into h s b p n"
  by (auto simp: blocks_into_def fun_eq_iff)

lemma run_command_log [simp]: "run_command (h\<lparr>io_log := l\<rparr>) s n = run_command h s n"
  by (simp add: run_command_def)

lemma Media_after_command_simps [simp]:
  "file_size (Media_after_command m c) = file_size m"
  "first_sector (Media_after_command m c) = first_sector m"
  "hsd (vol (Media_after_command m c)) = (hsd (vol m))\<lparr>io_log := io_log (hsd (vol m)) @ [c]\<rparr>"
  by (simp_all add: Media_after_command_def)







lemma Media_run_count_after [simp]:
  "Media_run_count (Media_after_command m c) offset sz = Media_run_count m offset sz"
  by (simp add: Media_run_count_def)

lemma sd_initialized_after [simp]:
  "sd_initialized (hsd (vol (Media_after_command m c))) = sd_initialized (hsd (vol m))"
  by simp







end
